theory Spec2Isabelle
  imports Complex_Main
begin

section \<open>Python values used by the program\<close>

subsection \<open>Strings\<close>

text \<open>
  A Python \<open>str\<close> is a sequence of Unicode code points, so it is modelled as a list of
  code points. Literals of the source that are not ASCII (the Russian labels, the emoji
  of the weather-code table) are written as code-point lists, with a transliteration in
  the comment beside them; ASCII literals are written with \<open>A\<close>.
\<close>

type_synonym pystr = "nat list"

definition A :: "string \<Rightarrow> pystr" where
  "A s = map of_char s"

text \<open>\<open>str(n)\<close> for a Python int: decimal digits, with a leading minus sign.\<close>

function digits :: "int \<Rightarrow> pystr" where
  "digits i = (if i < 10 then [nat (48 + i)] else digits (i div 10) @ [nat (48 + i mod 10)])"
  by pat_completeness auto
termination
  by (relation "measure nat") auto

declare digits.simps [simp del]

definition str_int :: "int \<Rightarrow> pystr" where
  "str_int i = (if i < 0 then 45 # digits (- i) else digits i)"

text \<open>\<open>'%0<w>d' % n\<close> for a non-negative \<open>n\<close>: zero padding on the left up to width \<open>w\<close>.\<close>

definition zpad :: "nat \<Rightarrow> int \<Rightarrow> pystr" where
  "zpad w n = (let s = str_int n in replicate (w - length s) 48 @ s)"

text \<open>
  \<open>s.replace(c, t)\<close> for a one-character pattern \<open>c\<close>: every occurrence is replaced.
\<close>

fun replace_char :: "nat \<Rightarrow> pystr \<Rightarrow> pystr \<Rightarrow> pystr" where
  "replace_char c t [] = []"
| "replace_char c t (x # xs) = (if x = c then t @ replace_char c t xs else x # replace_char c t xs)"

subsection \<open>Floats\<close>

text \<open>
  A Python float is a finite binary fraction, an infinity or NaN. A finite float is
  modelled by the rational number it denotes: \<open>round\<close> and \<open>int\<close> depend on that
  value only. The sign of a zero is not kept.
\<close>

datatype pyfloat = Finite rat | PosInf | NegInf | NaN

subsection \<open>Exceptions and the log\<close>

text \<open>
  The exceptions the program can meet, all of them instances of \<open>Exception\<close>: one
  constructor for each place of the library that raises, and \<open>External\<close> for whatever
  the provider's client and its response objects raise, with the text \<open>str(e)\<close> gives.
\<close>

datatype exn =
    InvalidIsoformat pystr     \<comment> \<open>ValueError of \<open>datetime.fromisoformat\<close> on this string\<close>
  | NotNaive                   \<comment> \<open>ValueError of \<open>pytz.UTC.localize\<close> on an aware datetime\<close>
  | DateOutOfRange             \<comment> \<open>OverflowError of datetime arithmetic outside the years 1 to 9999\<close>
  | TimestampOutOfRange int    \<comment> \<open>the error of \<open>datetime.fromtimestamp\<close> on this timestamp\<close>
  | NaNToInt                   \<comment> \<open>ValueError of \<open>round\<close> and \<open>int\<close> on NaN\<close>
  | InfToInt                   \<comment> \<open>OverflowError of \<open>round\<close> and \<open>int\<close> on an infinity\<close>
  | External pystr

definition bindE :: "exn + 'a \<Rightarrow> ('a \<Rightarrow> exn + 'b) \<Rightarrow> exn + 'b" where
  "bindE m f = (case m of Inl e \<Rightarrow> Inl e | Inr v \<Rightarrow> f v)"

text \<open>
  The logger is a sink of levelled messages: each call appends one entry. What the
  handlers configured by \<open>utils.logger\<close> do with an entry (filtering by level,
  formatting, the traceback added for \<open>exc_info=True\<close>) is outside this model.
\<close>

datatype level = DEBUG | INFO | WARNING | ERROR | CRITICAL

type_synonym log = "(level \<times> pystr) list"

definition logger_info :: "pystr \<Rightarrow> log \<Rightarrow> log" where
  "logger_info msg lg = lg @ [(INFO, msg)]"

definition logger_error :: "pystr \<Rightarrow> log \<Rightarrow> log" where
  "logger_error msg lg = lg @ [(ERROR, msg)]"

subsection \<open>The builtins \<open>round\<close> and \<open>int\<close> on floats\<close>

text \<open>
  C's \<open>round\<close>: to the nearest integer, halfway cases away from zero.
\<close>

definition c_round :: "rat \<Rightarrow> int" where
  "c_round x = (if 0 \<le> x then \<lfloor>x + 1 / 2\<rfloor> else \<lceil>x - 1 / 2\<rceil>)"

text \<open>
  \<open>round(x)\<close> with one argument (CPython, \<open>float.__round__\<close>): take C's \<open>round\<close>,
  and when \<open>x\<close> was halfway between two integers take \<open>2 * round(x / 2)\<close> instead.
  The result is a Python int. NaN raises ValueError, an infinity OverflowError.
\<close>

definition float_round :: "rat \<Rightarrow> int" where
  "float_round x =
     (let rounded = c_round x
      in if \<bar>x - of_int rounded\<bar> = 1 / 2 then 2 * c_round (x / 2) else rounded)"

fun py_round :: "pyfloat \<Rightarrow> exn + int" where
  "py_round (Finite x) = Inr (float_round x)"
| "py_round NaN = Inl NaNToInt"
| "py_round PosInf = Inl InfToInt"
| "py_round NegInf = Inl InfToInt"

text \<open>
  \<open>int(x)\<close>: truncation towards zero, with the same two errors.
\<close>

definition float_trunc :: "rat \<Rightarrow> int" where
  "float_trunc x = (if 0 \<le> x then \<lfloor>x\<rfloor> else \<lceil>x\<rceil>)"

fun py_int :: "pyfloat \<Rightarrow> exn + int" where
  "py_int (Finite x) = Inr (float_trunc x)"
| "py_int NaN = Inl NaNToInt"
| "py_int PosInf = Inl InfToInt"
| "py_int NegInf = Inl InfToInt"

text \<open>
  \<open>round(x, 1)\<close> (CPython, \<open>double_round\<close>): the decimal with one digit after the
  point that is nearest to \<open>x\<close>, halfway cases to the even digit, converted back to a
  float. The model keeps that decimal itself, which is the number the resulting float
  prints as. NaN and the infinities are returned unchanged; nothing is raised.
\<close>

definition round_1 :: "rat \<Rightarrow> rat" where
  "round_1 x = of_int (float_round (x * 10)) / 10"

fun py_round_1 :: "pyfloat \<Rightarrow> pyfloat" where
  "py_round_1 (Finite x) = Finite (round_1 x)"
| "py_round_1 f = f"

section \<open>The library calls the program makes\<close>

text \<open>
  \<open>datetime\<close>, \<open>pytz\<close> and the provider's client are not part of the repository. This
  section models the calls the program makes into them, following CPython 3.12 (the
  source needs 3.12 for its nested f-string quotes) and pytz.
\<close>

subsection \<open>Dates\<close>

text \<open>
  A \<open>datetime\<close> object: its wall-clock fields, and in \<open>tzinfo\<close> the UTC offset in
  seconds of the attached time-zone object (\<open>None\<close> for a naive datetime).
\<close>

record datetime =
  year :: int
  month :: int
  day :: int
  hour :: int
  minute :: int
  second :: int
  microsecond :: int
  tzinfo :: "int option"

definition is_leap :: "int \<Rightarrow> bool" where
  "is_leap y = (y mod 4 = 0 \<and> (y mod 100 \<noteq> 0 \<or> y mod 400 = 0))"

definition days_in_month :: "int \<Rightarrow> int \<Rightarrow> int" where
  "days_in_month y m =
     (if m = 2 then (if is_leap y then 29 else 28)
      else if m = 4 \<or> m = 6 \<or> m = 9 \<or> m = 11 then 30 else 31)"

definition days_before_year :: "int \<Rightarrow> int" where
  "days_before_year y = (let p = y - 1 in p * 365 + p div 4 - p div 100 + p div 400)"

definition days_before_month :: "int \<Rightarrow> int \<Rightarrow> int" where
  "days_before_month y m = sum_list (map (days_in_month y) [1 .. m - 1])"

text \<open>The proleptic Gregorian ordinal of a date; 0001-01-01 is day 1.\<close>

definition ymd2ord :: "int \<Rightarrow> int \<Rightarrow> int \<Rightarrow> int" where
  "ymd2ord y m d = days_before_year y + days_before_month y m + d"

text \<open>
  The inverse, as \<open>datetime\<close> computes it: 400-, 100-, 4- and 1-year cycles, then an
  estimate of the month that is at most one too large.
\<close>

definition ord2ymd :: "int \<Rightarrow> int \<times> int \<times> int" where
  "ord2ymd ordinal =
     (let n = ordinal - 1;
          n400 = n div 146097; r400 = n mod 146097;
          n100 = r400 div 36524; r100 = r400 mod 36524;
          n4 = r100 div 1461; r4 = r100 mod 1461;
          n1 = r4 div 365; r1 = r4 mod 365;
          y = n400 * 400 + 1 + n100 * 100 + n4 * 4 + n1
      in if n1 = 4 \<or> n100 = 4 then (y - 1, 12, 31)
         else
           (let m = (r1 + 50) div 32;
                preceding = days_before_month y m
            in if r1 < preceding
               then (y, m - 1, r1 - (preceding - days_in_month y (m - 1)) + 1)
               else (y, m, r1 - preceding + 1)))"

text \<open>
  Seconds of wall-clock time counted from 1970-01-01 00:00:00 of the same wall clock
  (day 719163), and back. \<open>datetime\<close> covers the years 1 to 9999.
\<close>

definition wall_seconds :: "datetime \<Rightarrow> int" where
  "wall_seconds dt =
     (ymd2ord (year dt) (month dt) (day dt) - 719163) * 86400
       + hour dt * 3600 + minute dt * 60 + second dt"

definition of_wall_seconds :: "int \<Rightarrow> int \<Rightarrow> int option \<Rightarrow> datetime" where
  "of_wall_seconds c us tz =
     (let (y, m, d) = ord2ymd (c div 86400 + 719163); r = c mod 86400
      in \<lparr>year = y, month = m, day = d,
          hour = r div 3600, minute = r mod 3600 div 60, second = r mod 60,
          microsecond = us, tzinfo = tz\<rparr>)"

definition in_range :: "int \<Rightarrow> bool" where
  "in_range c = (- 62135596800 \<le> c \<and> c \<le> 253402300799)"

text \<open>\<open>dt + timedelta(seconds=s)\<close>: OverflowError outside the years 1 to 9999.\<close>

definition dt_add :: "datetime \<Rightarrow> int \<Rightarrow> exn + datetime" where
  "dt_add dt s =
     (let c = wall_seconds dt + s
      in if in_range c then Inr (of_wall_seconds c (microsecond dt) (tzinfo dt))
         else Inl DateOutOfRange)"

text \<open>
  \<open>datetime.fromtimestamp(t, timezone.utc)\<close> for an integer \<open>t\<close>: an error when the
  year is not in 1 to 9999.
\<close>

definition fromtimestamp_utc :: "int \<Rightarrow> exn + datetime" where
  "fromtimestamp_utc t =
     (if in_range t then Inr (of_wall_seconds t 0 (Some 0))
      else Inl (TimestampOutOfRange t))"

subsection \<open>Printing dates\<close>

text \<open>
  \<open>dt.strftime('%Y-%m-%d %H:%M:%S')\<close>, the year padded to four digits (some platforms
  print a year below 1000 without the padding).
\<close>

definition strftime :: "datetime \<Rightarrow> pystr" where
  "strftime dt =
     zpad 4 (year dt) @ A ''-'' @ zpad 2 (month dt) @ A ''-'' @ zpad 2 (day dt) @ A '' ''
       @ zpad 2 (hour dt) @ A '':'' @ zpad 2 (minute dt) @ A '':'' @ zpad 2 (second dt)"

text \<open>
  \<open>dt.isoformat()\<close>: the date, \<open>T\<close>, the time, the microseconds when they are not zero,
  and the offset \<open>+HH:MM\<close> (with \<open>:SS\<close> when it has seconds) of an aware datetime.
\<close>

definition format_offset :: "int \<Rightarrow> pystr" where
  "format_offset off =
     (let a = \<bar>off\<bar>
      in (if off < 0 then A ''-'' else A ''+'') @ zpad 2 (a div 3600) @ A '':''
           @ zpad 2 (a mod 3600 div 60)
           @ (if a mod 60 = 0 then [] else A '':'' @ zpad 2 (a mod 60)))"

definition isoformat :: "datetime \<Rightarrow> pystr" where
  "isoformat dt =
     zpad 4 (year dt) @ A ''-'' @ zpad 2 (month dt) @ A ''-'' @ zpad 2 (day dt) @ A ''T''
       @ zpad 2 (hour dt) @ A '':'' @ zpad 2 (minute dt) @ A '':'' @ zpad 2 (second dt)
       @ (if microsecond dt = 0 then [] else A ''.'' @ zpad 6 (microsecond dt))
       @ (case tzinfo dt of None \<Rightarrow> [] | Some off \<Rightarrow> format_offset off)"

subsection \<open>Parsing dates\<close>

definition is_digit :: "nat \<Rightarrow> bool" where
  "is_digit c = (48 \<le> c \<and> c \<le> 57)"

definition digits_val :: "pystr \<Rightarrow> int option" where
  "digits_val s =
     (if s \<noteq> [] \<and> list_all is_digit s
      then Some (foldl (\<lambda>a c. a * 10 + (int c - 48)) 0 s) else None)"

text \<open>\<open>YYYY-MM-DD\<close>: a year from 1, a month from 1 to 12, a day of that month.\<close>

definition parse_date :: "pystr \<Rightarrow> (int \<times> int \<times> int) option" where
  "parse_date s =
     (if length s = 10 \<and> s ! 4 = 45 \<and> s ! 7 = 45
      then (case (digits_val (take 4 s), digits_val (take 2 (drop 5 s)), digits_val (drop 8 s)) of
              (Some y, Some m, Some d) \<Rightarrow>
                 if 1 \<le> y \<and> 1 \<le> m \<and> m \<le> 12 \<and> 1 \<le> d \<and> d \<le> days_in_month y m
                 then Some (y, m, d) else None
            | _ \<Rightarrow> None)
      else None)"

text \<open>\<open>HH:MM:SS\<close>, not yet checked for range.\<close>

definition parse_hms :: "pystr \<Rightarrow> (int \<times> int \<times> int) option" where
  "parse_hms s =
     (if length s = 8 \<and> s ! 2 = 58 \<and> s ! 5 = 58
      then (case (digits_val (take 2 s), digits_val (take 2 (drop 3 s)), digits_val (drop 6 s)) of
              (Some h, Some m, Some sec) \<Rightarrow> Some (h, m, sec)
            | _ \<Rightarrow> None)
      else None)"

text \<open>
  The offset: \<open>Z\<close>, or a sign and \<open>HH:MM\<close>; it must be less than a day.
\<close>

definition parse_tz :: "pystr \<Rightarrow> int option" where
  "parse_tz s =
     (if s = A ''Z'' then Some 0
      else if length s = 6 \<and> (hd s = 43 \<or> hd s = 45) \<and> s ! 3 = 58
      then (case (digits_val (take 2 (tl s)), digits_val (drop 4 s)) of
              (Some h, Some m) \<Rightarrow>
                 (let off = h * 3600 + m * 60
                  in if off < 86400 then Some (if hd s = 45 then - off else off) else None)
            | _ \<Rightarrow> None)
      else None)"

text \<open>
  \<open>datetime.fromisoformat\<close>, for the strings the program meets: \<open>YYYY-MM-DD\<close>, then
  optionally any one separator character and \<open>HH:MM:SS\<close>, then optionally an offset.
  That is what \<open>isoformat()\<close> prints for a whole second. CPython reads more forms
  (fractions of a second, times without seconds, the basic format, week dates, offsets
  with seconds); the model does not cover them and answers with the error there, so it
  is only evaluated on strings of the form above.
\<close>

definition parse_isoformat :: "pystr \<Rightarrow> datetime option" where
  "parse_isoformat s =
     (case parse_date (take 10 s) of
        None \<Rightarrow> None
      | Some (y, m, d) \<Rightarrow>
          (let rest = drop 10 s
           in if rest = []
              then Some \<lparr>year = y, month = m, day = d, hour = 0, minute = 0, second = 0,
                         microsecond = 0, tzinfo = None\<rparr>
              else
                (case parse_hms (take 8 (tl rest)) of
                   None \<Rightarrow> None
                 | Some (h, mi, sec) \<Rightarrow>
                     if h < 24 \<and> mi < 60 \<and> sec < 60
                     then
                       (let dt = \<lparr>year = y, month = m, day = d, hour = h, minute = mi,
                                  second = sec, microsecond = 0, tzinfo = None\<rparr>;
                            tz = drop 8 (tl rest)
                        in if tz = [] then Some dt
                           else (case parse_tz tz of
                                   None \<Rightarrow> None
                                 | Some off \<Rightarrow> Some (dt\<lparr>tzinfo := Some off\<rparr>)))
                     else None)))"

definition fromisoformat :: "pystr \<Rightarrow> exn + datetime" where
  "fromisoformat s =
     (case parse_isoformat s of
        Some dt \<Rightarrow> Inr dt
      | None \<Rightarrow> Inl (InvalidIsoformat s))"

subsection \<open>Time zones\<close>

text \<open>
  What the program takes from its surroundings: the system's local UTC offset for a
  naive wall-clock time, the offsets of Europe/Moscow before its last change, the
  readings of the clock (seconds since the epoch and microseconds, one reading per call
  of \<open>datetime.now\<close>), \<open>repr\<close> of a float, and the text of the library's exceptions.
\<close>

record env =
  local_utcoffset :: "int \<Rightarrow> int"
  msk_history :: "int \<Rightarrow> int"
  clock :: "nat \<Rightarrow> int \<times> int"
  repr_float :: "pyfloat \<Rightarrow> pystr"
  exc_text :: "exn \<Rightarrow> pystr"

text \<open>\<open>str(e)\<close>.\<close>

definition str_exn :: "env \<Rightarrow> exn \<Rightarrow> pystr" where
  "str_exn env e = (case e of External m \<Rightarrow> m | _ \<Rightarrow> exc_text env e)"

text \<open>The two zone objects the program makes: \<open>pytz.UTC\<close> and \<open>pytz.timezone('Europe/Moscow')\<close>.\<close>

datatype zone = UTC | Europe_Moscow

text \<open>
  The offset of a zone at a UTC instant. Europe/Moscow is at +03:00 since
  2014-10-25 22:00:00 UTC (1414274400) with no later change; before that the zone
  database has a history of other offsets.
\<close>

definition zone_utcoffset :: "env \<Rightarrow> zone \<Rightarrow> int \<Rightarrow> int" where
  "zone_utcoffset env z u =
     (case z of
        UTC \<Rightarrow> 0
      | Europe_Moscow \<Rightarrow> if 1414274400 \<le> u then 10800 else msk_history env u)"

text \<open>
  \<open>pytz.UTC.localize(dt)\<close>: only a naive datetime is accepted.
\<close>

definition localize_utc :: "datetime \<Rightarrow> exn + datetime" where
  "localize_utc dt =
     (if tzinfo dt \<noteq> None
      then Inl NotNaive
      else Inr (dt\<lparr>tzinfo := Some 0\<rparr>))"

text \<open>
  \<open>dt.astimezone(z)\<close>: subtract the datetime's own offset (the system's local offset
  when it is naive), then add the offset of \<open>z\<close> at that instant. Either step overflows
  outside the years 1 to 9999.
\<close>

definition astimezone :: "env \<Rightarrow> datetime \<Rightarrow> zone \<Rightarrow> exn + datetime" where
  "astimezone env dt z =
     (let myoffset = (case tzinfo dt of
                        None \<Rightarrow> local_utcoffset env (wall_seconds dt)
                      | Some off \<Rightarrow> off)
      in bindE (dt_add dt (- myoffset)) (\<lambda>utc.
           (let off = zone_utcoffset env z (wall_seconds utc)
            in bindE (dt_add utc off) (\<lambda>r. Inr (r\<lparr>tzinfo := Some off\<rparr>)))))"

text \<open>\<open>datetime.now(z)\<close> at the \<open>k\<close>-th reading of the clock.\<close>

definition now :: "env \<Rightarrow> nat \<Rightarrow> zone \<Rightarrow> exn + datetime" where
  "now env k z =
     (let (t, us) = clock env k
      in bindE (fromtimestamp_utc t) (\<lambda>utc. astimezone env (utc\<lparr>microsecond := us\<rparr>) z))"

section \<open>The program\<close>

text \<open>
  The model follows \<open>src/src/weather_data.py\<close>. Each Python function becomes a function
  from the log before the call to its outcome and the log after it; the outcome is
  \<open>Inr\<close> of the returned value or \<open>Inl\<close> of the exception that leaves the function.
\<close>

subsection \<open>String literals of the source\<close>

text \<open>Line 70: \<^verbatim>\<open>Oshibka konvertatsii vremeni s pytz: \<close>\<close>

definition msg_convert_error :: pystr where
  "msg_convert_error =
     [0x41E, 0x448, 0x438, 0x431, 0x43A, 0x430, 0x20, 0x43A, 0x43E, 0x43D, 0x432, 0x435,
      0x440, 0x442, 0x430, 0x446, 0x438, 0x438, 0x20, 0x432, 0x440, 0x435, 0x43C, 0x435,
      0x43D, 0x438, 0x20, 0x441, 0x20, 0x70, 0x79, 0x74, 0x7A, 0x3A, 0x20]"

text \<open>Line 121: \<^verbatim>\<open>Zapros pogody dlya koordinat: \<close>\<close>

definition msg_request :: pystr where
  "msg_request =
     [0x417, 0x430, 0x43F, 0x440, 0x43E, 0x441, 0x20, 0x43F, 0x43E, 0x433, 0x43E, 0x434,
      0x44B, 0x20, 0x434, 0x43B, 0x44F, 0x20, 0x43A, 0x43E, 0x43E, 0x440, 0x434, 0x438,
      0x43D, 0x430, 0x442, 0x3A, 0x20]"

text \<open>Line 127: \<^verbatim>\<open>Poluchen pustoj otvet ot API\<close>\<close>

definition msg_empty :: pystr where
  "msg_empty =
     [0x41F, 0x43E, 0x43B, 0x443, 0x447, 0x435, 0x43D, 0x20, 0x43F, 0x443, 0x441, 0x442,
      0x43E, 0x439, 0x20, 0x43E, 0x442, 0x432, 0x435, 0x442, 0x20, 0x43E, 0x442, 0x20,
      0x41, 0x50, 0x49]"

text \<open>Line 183: \<^verbatim>\<open>Dannye pogody uspeshno polucheny.\<close>\<close>

definition msg_success :: pystr where
  "msg_success =
     [0x414, 0x430, 0x43D, 0x43D, 0x44B, 0x435, 0x20, 0x43F, 0x43E, 0x433, 0x43E, 0x434,
      0x44B, 0x20, 0x443, 0x441, 0x43F, 0x435, 0x448, 0x43D, 0x43E, 0x20, 0x43F, 0x43E,
      0x43B, 0x443, 0x447, 0x435, 0x43D, 0x44B, 0x2E]"

text \<open>Line 187: \<^verbatim>\<open>Oshibka pri poluchenii dannykh pogody: \<close>\<close>

definition msg_error :: pystr where
  "msg_error =
     [0x41E, 0x448, 0x438, 0x431, 0x43A, 0x430, 0x20, 0x43F, 0x440, 0x438, 0x20, 0x43F,
      0x43E, 0x43B, 0x443, 0x447, 0x435, 0x43D, 0x438, 0x438, 0x20, 0x434, 0x430, 0x43D,
      0x43D, 0x44B, 0x445, 0x20, 0x43F, 0x43E, 0x433, 0x43E, 0x434, 0x44B, 0x3A, 0x20]"

text \<open>Line 176: \<^verbatim>\<open>U+B0 C\<close>\<close>

definition degrees_C :: pystr where
  "degrees_C =
     [0xB0, 0x43]"

text \<open>Line 232: \<^verbatim>\<open>Kod pogody: \<close>\<close>

definition msg_code :: pystr where
  "msg_code =
     [0x41A, 0x43E, 0x434, 0x20, 0x43F, 0x43E, 0x433, 0x43E, 0x434, 0x44B, 0x3A, 0x20]"

text \<open>Line 235: \<^verbatim>\<open>SVODKA POGODY\<close>\<close>

definition label_header :: pystr where
  "label_header =
     [0x421, 0x412, 0x41E, 0x414, 0x41A, 0x410, 0x20, 0x41F, 0x41E, 0x413, 0x41E, 0x414,
      0x42B]"

text \<open>Line 236: \<^verbatim>\<open>Vremya nablyudeniya (MSK): \<close>\<close>

definition label_observed :: pystr where
  "label_observed =
     [0x412, 0x440, 0x435, 0x43C, 0x44F, 0x20, 0x43D, 0x430, 0x431, 0x43B, 0x44E, 0x434,
      0x435, 0x43D, 0x438, 0x44F, 0x20, 0x28, 0x41C, 0x421, 0x41A, 0x29, 0x3A, 0x20]"

text \<open>Line 237: \<^verbatim>\<open>Vremya zaprosa (MSK):    \<close>\<close>

definition label_requested :: pystr where
  "label_requested =
     [0x412, 0x440, 0x435, 0x43C, 0x44F, 0x20, 0x437, 0x430, 0x43F, 0x440, 0x43E, 0x441,
      0x430, 0x20, 0x28, 0x41C, 0x421, 0x41A, 0x29, 0x3A, 0x20, 0x20, 0x20, 0x20]"

text \<open>Line 238: \<^verbatim>\<open>Temperatura:            \<close>\<close>

definition label_temperature :: pystr where
  "label_temperature =
     [0x422, 0x435, 0x43C, 0x43F, 0x435, 0x440, 0x430, 0x442, 0x443, 0x440, 0x430, 0x3A,
      0x20, 0x20, 0x20, 0x20, 0x20, 0x20, 0x20, 0x20, 0x20, 0x20, 0x20, 0x20]"

text \<open>Line 238: \<^verbatim>\<open>U+B0 C (oshchushchaetsya kak \<close>\<close>

definition label_feels_like :: pystr where
  "label_feels_like =
     [0xB0, 0x43, 0x20, 0x28, 0x43E, 0x449, 0x443, 0x449, 0x430, 0x435, 0x442, 0x441,
      0x44F, 0x20, 0x43A, 0x430, 0x43A, 0x20]"

text \<open>Line 238: \<^verbatim>\<open>U+B0 C)\<close>\<close>

definition label_feels_like_end :: pystr where
  "label_feels_like_end =
     [0xB0, 0x43, 0x29]"

text \<open>Line 239: \<^verbatim>\<open>Vlazhnost':              \<close>\<close>

definition label_humidity :: pystr where
  "label_humidity =
     [0x412, 0x43B, 0x430, 0x436, 0x43D, 0x43E, 0x441, 0x442, 0x44C, 0x3A, 0x20, 0x20,
      0x20, 0x20, 0x20, 0x20, 0x20, 0x20, 0x20, 0x20, 0x20, 0x20, 0x20, 0x20]"

text \<open>Line 240: \<^verbatim>\<open>Pogoda:                 \<close>\<close>

definition label_weather :: pystr where
  "label_weather =
     [0x41F, 0x43E, 0x433, 0x43E, 0x434, 0x430, 0x3A, 0x20, 0x20, 0x20, 0x20, 0x20, 0x20,
      0x20, 0x20, 0x20, 0x20, 0x20, 0x20, 0x20, 0x20, 0x20, 0x20, 0x20]"

text \<open>Line 241: \<^verbatim>\<open>Veter:                  \<close>\<close>

definition label_wind :: pystr where
  "label_wind =
     [0x412, 0x435, 0x442, 0x435, 0x440, 0x3A, 0x20, 0x20, 0x20, 0x20, 0x20, 0x20, 0x20,
      0x20, 0x20, 0x20, 0x20, 0x20, 0x20, 0x20, 0x20, 0x20, 0x20, 0x20]"

text \<open>Line 241: \<^verbatim>\<open> km/ch, poryvy do \<close>\<close>

definition label_gusts :: pystr where
  "label_gusts =
     [0x20, 0x43A, 0x43C, 0x2F, 0x447, 0x2C, 0x20, 0x43F, 0x43E, 0x440, 0x44B, 0x432,
      0x44B, 0x20, 0x434, 0x43E, 0x20]"

text \<open>Line 241: \<^verbatim>\<open> km/ch\<close>\<close>

definition label_kmh :: pystr where
  "label_kmh =
     [0x20, 0x43A, 0x43C, 0x2F, 0x447]"

text \<open>Line 242: \<^verbatim>\<open>Davlenie:               \<close>\<close>

definition label_pressure :: pystr where
  "label_pressure =
     [0x414, 0x430, 0x432, 0x43B, 0x435, 0x43D, 0x438, 0x435, 0x3A, 0x20, 0x20, 0x20, 0x20,
      0x20, 0x20, 0x20, 0x20, 0x20, 0x20, 0x20, 0x20, 0x20, 0x20, 0x20]"

text \<open>Line 243: \<^verbatim>\<open>Osadki:                 \<close>\<close>

definition label_precipitation :: pystr where
  "label_precipitation =
     [0x41E, 0x441, 0x430, 0x434, 0x43A, 0x438, 0x3A, 0x20, 0x20, 0x20, 0x20, 0x20, 0x20,
      0x20, 0x20, 0x20, 0x20, 0x20, 0x20, 0x20, 0x20, 0x20, 0x20, 0x20]"

text \<open>Line 243: \<^verbatim>\<open> mm/ch\<close>\<close>

definition label_mmh :: pystr where
  "label_mmh =
     [0x20, 0x43C, 0x43C, 0x2F, 0x447]"

text \<open>
  Lines 199 to 228, the table \<open>weather_codes\<close>. Each description is an emoji and a
  Russian phrase:
  \<^verbatim>\<open>0: U+2600 U+FE0F  Yasno\<close>
  \<^verbatim>\<open>1: U+1F324 U+FE0F  Preimushchestvenno yasno\<close>
  \<^verbatim>\<open>2: U+26C5  Peremennaya oblachnost'\<close>
  \<^verbatim>\<open>3: U+2601 U+FE0F  Pasmurno\<close>
  \<^verbatim>\<open>45: U+1F32B U+FE0F  Tuman\<close>
  \<^verbatim>\<open>48: U+1F32B U+FE0F  Izmoroz'\<close>
  \<^verbatim>\<open>51: U+1F327 U+FE0F  Moros' slabaya\<close>
  \<^verbatim>\<open>53: U+1F327 U+FE0F  Moros' umerennaya\<close>
  \<^verbatim>\<open>55: U+1F327 U+FE0F  Moros' sil'naya\<close>
  \<^verbatim>\<open>56: U+1F327 U+FE0F U+2744 U+FE0F  Ledyanaya moros' slabaya\<close>
  \<^verbatim>\<open>57: U+1F327 U+FE0F U+2744 U+FE0F  Ledyanaya moros' sil'naya\<close>
  \<^verbatim>\<open>61: U+1F327 U+FE0F  Dozhd' slabyj\<close>
  \<^verbatim>\<open>63: U+1F327 U+FE0F  Dozhd' umerennyj\<close>
  \<^verbatim>\<open>65: U+1F327 U+FE0F  Dozhd' sil'nyj\<close>
  \<^verbatim>\<open>66: U+1F327 U+FE0F U+1F9CA  Ledyanoj dozhd' slabyj\<close>
  \<^verbatim>\<open>67: U+1F327 U+FE0F U+1F9CA  Ledyanoj dozhd' sil'nyj\<close>
  \<^verbatim>\<open>71: U+1F328 U+FE0F  Sneg slabyj\<close>
  \<^verbatim>\<open>73: U+1F328 U+FE0F  Sneg umerennyj\<close>
  \<^verbatim>\<open>75: U+1F328 U+FE0F  Sneg sil'nyj\<close>
  \<^verbatim>\<open>77: U+2744 U+FE0F  Snezhnye zerna\<close>
  \<^verbatim>\<open>80: U+1F326 U+FE0F  Liven' slabyj\<close>
  \<^verbatim>\<open>81: U+1F326 U+FE0F  Liven' umerennyj\<close>
  \<^verbatim>\<open>82: U+26C8 U+FE0F  Liven' sil'nyj\<close>
  \<^verbatim>\<open>85: U+1F328 U+FE0F  Snegopad slabyj\<close>
  \<^verbatim>\<open>86: U+1F328 U+FE0F  Snegopad sil'nyj\<close>
  \<^verbatim>\<open>95: U+26C8 U+FE0F  Groza\<close>
  \<^verbatim>\<open>96: U+26C8 U+FE0F  Groza s gradom slabaya\<close>
  \<^verbatim>\<open>99: U+26C8 U+FE0F  Groza s gradom sil'naya\<close>
\<close>

definition weather_codes :: "(int \<times> pystr) list" where
  "weather_codes =
     [(0, [0x2600, 0xFE0F, 0x20, 0x42F, 0x441, 0x43D, 0x43E]),
      (1, [0x1F324, 0xFE0F, 0x20, 0x41F, 0x440, 0x435, 0x438, 0x43C, 0x443, 0x449, 0x435,
           0x441, 0x442, 0x432, 0x435, 0x43D, 0x43D, 0x43E, 0x20, 0x44F, 0x441, 0x43D,
           0x43E]),
      (2, [0x26C5, 0x20, 0x41F, 0x435, 0x440, 0x435, 0x43C, 0x435, 0x43D, 0x43D, 0x430,
           0x44F, 0x20, 0x43E, 0x431, 0x43B, 0x430, 0x447, 0x43D, 0x43E, 0x441, 0x442,
           0x44C]),
      (3, [0x2601, 0xFE0F, 0x20, 0x41F, 0x430, 0x441, 0x43C, 0x443, 0x440, 0x43D, 0x43E]),
      (45, [0x1F32B, 0xFE0F, 0x20, 0x422, 0x443, 0x43C, 0x430, 0x43D]),
      (48, [0x1F32B, 0xFE0F, 0x20, 0x418, 0x437, 0x43C, 0x43E, 0x440, 0x43E, 0x437, 0x44C]),
      (51, [0x1F327, 0xFE0F, 0x20, 0x41C, 0x43E, 0x440, 0x43E, 0x441, 0x44C, 0x20, 0x441,
            0x43B, 0x430, 0x431, 0x430, 0x44F]),
      (53, [0x1F327, 0xFE0F, 0x20, 0x41C, 0x43E, 0x440, 0x43E, 0x441, 0x44C, 0x20, 0x443,
            0x43C, 0x435, 0x440, 0x435, 0x43D, 0x43D, 0x430, 0x44F]),
      (55, [0x1F327, 0xFE0F, 0x20, 0x41C, 0x43E, 0x440, 0x43E, 0x441, 0x44C, 0x20, 0x441,
            0x438, 0x43B, 0x44C, 0x43D, 0x430, 0x44F]),
      (56, [0x1F327, 0xFE0F, 0x2744, 0xFE0F, 0x20, 0x41B, 0x435, 0x434, 0x44F, 0x43D,
            0x430, 0x44F, 0x20, 0x43C, 0x43E, 0x440, 0x43E, 0x441, 0x44C, 0x20, 0x441,
            0x43B, 0x430, 0x431, 0x430, 0x44F]),
      (57, [0x1F327, 0xFE0F, 0x2744, 0xFE0F, 0x20, 0x41B, 0x435, 0x434, 0x44F, 0x43D,
            0x430, 0x44F, 0x20, 0x43C, 0x43E, 0x440, 0x43E, 0x441, 0x44C, 0x20, 0x441,
            0x438, 0x43B, 0x44C, 0x43D, 0x430, 0x44F]),
      (61, [0x1F327, 0xFE0F, 0x20, 0x414, 0x43E, 0x436, 0x434, 0x44C, 0x20, 0x441, 0x43B,
            0x430, 0x431, 0x44B, 0x439]),
      (63, [0x1F327, 0xFE0F, 0x20, 0x414, 0x43E, 0x436, 0x434, 0x44C, 0x20, 0x443, 0x43C,
            0x435, 0x440, 0x435, 0x43D, 0x43D, 0x44B, 0x439]),
      (65, [0x1F327, 0xFE0F, 0x20, 0x414, 0x43E, 0x436, 0x434, 0x44C, 0x20, 0x441, 0x438,
            0x43B, 0x44C, 0x43D, 0x44B, 0x439]),
      (66, [0x1F327, 0xFE0F, 0x1F9CA, 0x20, 0x41B, 0x435, 0x434, 0x44F, 0x43D, 0x43E,
            0x439, 0x20, 0x434, 0x43E, 0x436, 0x434, 0x44C, 0x20, 0x441, 0x43B, 0x430,
            0x431, 0x44B, 0x439]),
      (67, [0x1F327, 0xFE0F, 0x1F9CA, 0x20, 0x41B, 0x435, 0x434, 0x44F, 0x43D, 0x43E,
            0x439, 0x20, 0x434, 0x43E, 0x436, 0x434, 0x44C, 0x20, 0x441, 0x438, 0x43B,
            0x44C, 0x43D, 0x44B, 0x439]),
      (71, [0x1F328, 0xFE0F, 0x20, 0x421, 0x43D, 0x435, 0x433, 0x20, 0x441, 0x43B, 0x430,
            0x431, 0x44B, 0x439]),
      (73, [0x1F328, 0xFE0F, 0x20, 0x421, 0x43D, 0x435, 0x433, 0x20, 0x443, 0x43C, 0x435,
            0x440, 0x435, 0x43D, 0x43D, 0x44B, 0x439]),
      (75, [0x1F328, 0xFE0F, 0x20, 0x421, 0x43D, 0x435, 0x433, 0x20, 0x441, 0x438, 0x43B,
            0x44C, 0x43D, 0x44B, 0x439]),
      (77, [0x2744, 0xFE0F, 0x20, 0x421, 0x43D, 0x435, 0x436, 0x43D, 0x44B, 0x435, 0x20,
            0x437, 0x435, 0x440, 0x43D, 0x430]),
      (80, [0x1F326, 0xFE0F, 0x20, 0x41B, 0x438, 0x432, 0x435, 0x43D, 0x44C, 0x20, 0x441,
            0x43B, 0x430, 0x431, 0x44B, 0x439]),
      (81, [0x1F326, 0xFE0F, 0x20, 0x41B, 0x438, 0x432, 0x435, 0x43D, 0x44C, 0x20, 0x443,
            0x43C, 0x435, 0x440, 0x435, 0x43D, 0x43D, 0x44B, 0x439]),
      (82, [0x26C8, 0xFE0F, 0x20, 0x41B, 0x438, 0x432, 0x435, 0x43D, 0x44C, 0x20, 0x441,
            0x438, 0x43B, 0x44C, 0x43D, 0x44B, 0x439]),
      (85, [0x1F328, 0xFE0F, 0x20, 0x421, 0x43D, 0x435, 0x433, 0x43E, 0x43F, 0x430, 0x434,
            0x20, 0x441, 0x43B, 0x430, 0x431, 0x44B, 0x439]),
      (86, [0x1F328, 0xFE0F, 0x20, 0x421, 0x43D, 0x435, 0x433, 0x43E, 0x43F, 0x430, 0x434,
            0x20, 0x441, 0x438, 0x43B, 0x44C, 0x43D, 0x44B, 0x439]),
      (95, [0x26C8, 0xFE0F, 0x20, 0x413, 0x440, 0x43E, 0x437, 0x430]),
      (96, [0x26C8, 0xFE0F, 0x20, 0x413, 0x440, 0x43E, 0x437, 0x430, 0x20, 0x441, 0x20,
            0x433, 0x440, 0x430, 0x434, 0x43E, 0x43C, 0x20, 0x441, 0x43B, 0x430, 0x431,
            0x430, 0x44F]),
      (99, [0x26C8, 0xFE0F, 0x20, 0x413, 0x440, 0x43E, 0x437, 0x430, 0x20, 0x441, 0x20,
            0x433, 0x440, 0x430, 0x434, 0x43E, 0x43C, 0x20, 0x441, 0x438, 0x43B, 0x44C,
            0x43D, 0x430, 0x44F])]"

subsection \<open>\<open>convert_utc_to_msk_pytz\<close> (lines 39 to 71)\<close>

text \<open>
  The body of the \<open>try\<close> block. \<open>'+' in s\<close> and \<open>'Z' in s\<close> test for the code points 43
  and 90; a minus sign (45) is not tested for.
\<close>

definition convert_utc_to_msk_pytz_try :: "env \<Rightarrow> pystr \<Rightarrow> exn + pystr" where
  "convert_utc_to_msk_pytz_try env utc_datetime_str =
     bindE
       (if 43 \<in> set utc_datetime_str \<or> 90 \<in> set utc_datetime_str
        then bindE (fromisoformat (replace_char 90 (A ''+00:00'') utc_datetime_str))
               (\<lambda>naive_dt. if tzinfo naive_dt = None then astimezone env naive_dt UTC
                           else Inr naive_dt)
        else bindE (fromisoformat utc_datetime_str) (\<lambda>naive_dt. localize_utc naive_dt))
       (\<lambda>utc_dt. bindE (astimezone env utc_dt Europe_Moscow)
          (\<lambda>msk_dt. Inr (strftime msk_dt)))"

text \<open>
  With its handler: \<open>except Exception\<close> logs the error and returns the argument.
\<close>

definition convert_utc_to_msk_pytz :: "env \<Rightarrow> pystr \<Rightarrow> log \<Rightarrow> (exn + pystr) \<times> log" where
  "convert_utc_to_msk_pytz env utc_datetime_str lg =
     (case convert_utc_to_msk_pytz_try env utc_datetime_str of
        Inr r \<Rightarrow> (Inr r, lg)
      | Inl e \<Rightarrow> (Inr utc_datetime_str, logger_error (msg_convert_error @ str_exn env e) lg))"

subsection \<open>\<open>get_current_msk_time\<close> (lines 74 to 78)\<close>

text \<open>It has no handler; \<open>k\<close> says which reading of the clock the call makes.\<close>

definition get_current_msk_time :: "env \<Rightarrow> nat \<Rightarrow> exn + pystr" where
  "get_current_msk_time env k =
     bindE (now env k Europe_Moscow) (\<lambda>msk_time. Inr (strftime msk_time))"

subsection \<open>The request and the response\<close>

text \<open>
  The dictionary \<open>params\<close> of lines 97 to 118; the field \<open>param_k\<close> is the value of key
  \<open>k\<close>.
\<close>

record params =
  param_latitude :: pyfloat
  param_longitude :: pyfloat
  param_current :: "pystr list"
  param_hourly :: "pystr list"
  param_daily :: "pystr list"
  param_timezone :: pystr
  param_forecast_days :: int
  param_past_days :: int

definition url :: pystr where
  "url = A ''https://api.open-meteo.com/v1/forecast''"

definition make_params :: "pyfloat \<Rightarrow> pyfloat \<Rightarrow> int \<Rightarrow> params" where
  "make_params latitude longitude forecast_days =
     \<lparr>param_latitude = latitude,
      param_longitude = longitude,
      param_current =
        [A ''temperature_2m'', A ''relative_humidity_2m'', A ''apparent_temperature'',
         A ''precipitation'', A ''rain'', A ''showers'', A ''snowfall'', A ''weather_code'',
         A ''cloud_cover'', A ''pressure_msl'', A ''surface_pressure'', A ''wind_speed_10m'',
         A ''wind_direction_10m'', A ''wind_gusts_10m''],
      param_hourly =
        [A ''temperature_2m'', A ''relative_humidity_2m'', A ''precipitation'',
         A ''weather_code'', A ''surface_pressure'', A ''wind_speed_10m''],
      param_daily =
        [A ''weather_code'', A ''temperature_2m_max'', A ''temperature_2m_min'',
         A ''apparent_temperature_max'', A ''apparent_temperature_min'',
         A ''precipitation_sum'', A ''precipitation_hours'', A ''wind_speed_10m_max''],
      param_timezone = A ''auto'',
      param_forecast_days = forecast_days,
      param_past_days = 0\<rparr>"

text \<open>
  The objects of the provider's SDK. The program only calls their accessors, and every
  call may raise: \<open>Variables_Value c i\<close> is the outcome of \<open>c.Variables(i).Value()\<close>,
  whatever the SDK does when slot \<open>i\<close> is missing.
\<close>

record variables_with_time =
  Time :: "exn + int"
  Variables_Value :: "nat \<Rightarrow> exn + pyfloat"

record response =
  Elevation :: "exn + pyfloat"
  Current :: "exn + variables_with_time"
  Hourly :: "exn + unit"
  Daily :: "exn + unit"

text \<open>\<open>client.weather_api(url, params=params)\<close>: it raises or returns a list of responses.\<close>

type_synonym client = "pystr \<Rightarrow> params \<Rightarrow> exn + response list"

subsection \<open>The record \<open>weather_data\<close> (lines 148 to 181)\<close>

record coordinates_rec =
  latitude :: pyfloat
  longitude :: pyfloat
  elevation :: pyfloat

record current_rec =
  time_utc :: pystr
  time_msk :: pystr
  temperature :: pyfloat
  humidity :: int
  apparent_temperature :: pyfloat
  precipitation :: pyfloat
  rain :: pyfloat
  showers :: pyfloat
  snowfall :: pyfloat
  weather_code :: int
  cloud_cover :: int
  pressure_msl :: int
  surface_pressure :: int
  wind_speed :: pyfloat
  wind_direction :: int
  wind_gusts :: pyfloat

record units_rec =
  unit_temperature :: pystr
  unit_precipitation :: pystr
  unit_pressure :: pystr
  unit_wind_speed :: pystr

record weather_data =
  timestamp :: pystr
  timestamp_utc :: pystr
  coordinates :: coordinates_rec
  current :: current_rec
  forecast_days :: int
  units :: units_rec

subsection \<open>\<open>get_weather_data\<close> (lines 81 to 188)\<close>

text \<open>
  Lines 156 to 173, the dictionary under \<open>"current"\<close>: the fourteen slots are read in
  order, each one rounded as soon as it is read, so the first failing call decides the
  exception.
\<close>

definition make_current ::
    "variables_with_time \<Rightarrow> pystr \<Rightarrow> pystr \<Rightarrow> exn + current_rec" where
  "make_current cur utc_time_str msk_time_str =
     bindE (Variables_Value cur 0) (\<lambda>v0.
     bindE (Variables_Value cur 1) (\<lambda>v1. bindE (py_round v1) (\<lambda>r1.
     bindE (Variables_Value cur 2) (\<lambda>v2.
     bindE (Variables_Value cur 3) (\<lambda>v3.
     bindE (Variables_Value cur 4) (\<lambda>v4.
     bindE (Variables_Value cur 5) (\<lambda>v5.
     bindE (Variables_Value cur 6) (\<lambda>v6.
     bindE (Variables_Value cur 7) (\<lambda>v7. bindE (py_int v7) (\<lambda>r7.
     bindE (Variables_Value cur 8) (\<lambda>v8. bindE (py_round v8) (\<lambda>r8.
     bindE (Variables_Value cur 9) (\<lambda>v9. bindE (py_round v9) (\<lambda>r9.
     bindE (Variables_Value cur 10) (\<lambda>v10. bindE (py_round v10) (\<lambda>r10.
     bindE (Variables_Value cur 11) (\<lambda>v11.
     bindE (Variables_Value cur 12) (\<lambda>v12. bindE (py_round v12) (\<lambda>r12.
     bindE (Variables_Value cur 13) (\<lambda>v13.
       Inr \<lparr>time_utc = utc_time_str,
            time_msk = msk_time_str,
            temperature = py_round_1 v0,
            humidity = r1,
            apparent_temperature = py_round_1 v2,
            precipitation = py_round_1 v3,
            rain = py_round_1 v4,
            showers = py_round_1 v5,
            snowfall = py_round_1 v6,
            weather_code = r7,
            cloud_cover = r8,
            pressure_msl = r9,
            surface_pressure = r10,
            wind_speed = py_round_1 v11,
            wind_direction = r12,
            wind_gusts = py_round_1 v13\<rparr>))))))))))))))))))))"

text \<open>
  Lines 148 to 181, the whole dictionary, its values evaluated in the order written:
  the second reading of the clock, the elevation, then the current conditions.
\<close>

definition make_weather_data ::
    "env \<Rightarrow> response \<Rightarrow> variables_with_time \<Rightarrow> pyfloat \<Rightarrow> pyfloat \<Rightarrow> int
       \<Rightarrow> pystr \<Rightarrow> pystr \<Rightarrow> pystr \<Rightarrow> exn + weather_data" where
  "make_weather_data env resp cur lat lon days current_msk_time utc_time_str msk_time_str =
     bindE (now env 1 UTC) (\<lambda>now_utc.
     bindE (Elevation resp) (\<lambda>elev.
     bindE (make_current cur utc_time_str msk_time_str) (\<lambda>c.
       Inr \<lparr>timestamp = current_msk_time,
            timestamp_utc = isoformat now_utc,
            coordinates = \<lparr>latitude = lat, longitude = lon, elevation = elev\<rparr>,
            current = c,
            forecast_days = days,
            units = \<lparr>unit_temperature = degrees_C, unit_precipitation = A ''mm'',
                     unit_pressure = A ''hPa'', unit_wind_speed = A ''km/h''\<rparr>\<rparr>)))"

text \<open>
  Lines 130 to 139: the first response, its three blocks, and the observation time as
  an ISO string in UTC.
\<close>

definition read_response :: "response \<Rightarrow> exn + variables_with_time \<times> pystr" where
  "read_response resp =
     bindE (Current resp) (\<lambda>cur.
     bindE (Hourly resp) (\<lambda>hourly.
     bindE (Daily resp) (\<lambda>daily.
     bindE (Time cur) (\<lambda>t.
     bindE (fromtimestamp_utc t) (\<lambda>utc_time.
       Inr (cur, isoformat utc_time))))))"

text \<open>
  The body of the \<open>try\<close> block, lines 121 to 184. The result \<open>None\<close> of line 128 is
  \<open>Inr None\<close>.
\<close>

definition get_weather_data_try ::
    "env \<Rightarrow> client \<Rightarrow> pyfloat \<Rightarrow> pyfloat \<Rightarrow> int \<Rightarrow> log
       \<Rightarrow> (exn + weather_data option) \<times> log" where
  "get_weather_data_try env client lat lon days lg =
     (let lg1 = logger_info (msg_request @ repr_float env lat @ A '', '' @ repr_float env lon) lg
      in case client url (make_params lat lon days) of
           Inl e \<Rightarrow> (Inl e, lg1)
         | Inr responses \<Rightarrow>
             if responses = [] then (Inr None, logger_error msg_empty lg1)
             else
               (case read_response (hd responses) of
                  Inl e \<Rightarrow> (Inl e, lg1)
                | Inr (cur, utc_time_str) \<Rightarrow>
                    (case convert_utc_to_msk_pytz env utc_time_str lg1 of
                       (Inl e, lg2) \<Rightarrow> (Inl e, lg2)
                     | (Inr msk_time_str, lg2) \<Rightarrow>
                         (case bindE (get_current_msk_time env 0) (\<lambda>current_msk_time.
                                 make_weather_data env (hd responses) cur lat lon days
                                   current_msk_time utc_time_str msk_time_str) of
                            Inl e \<Rightarrow> (Inl e, lg2)
                          | Inr wd \<Rightarrow> (Inr (Some wd), logger_info msg_success lg2)))))"

text \<open>
  With its handler, lines 186 to 188: \<open>except Exception\<close> logs the error and returns
  \<open>None\<close>.
\<close>

definition get_weather_data ::
    "env \<Rightarrow> client \<Rightarrow> pyfloat \<Rightarrow> pyfloat \<Rightarrow> int \<Rightarrow> log
       \<Rightarrow> (exn + weather_data option) \<times> log" where
  "get_weather_data env client lat lon days lg =
     (case get_weather_data_try env client lat lon days lg of
        (Inr r, lg') \<Rightarrow> (Inr r, lg')
      | (Inl e, lg') \<Rightarrow> (Inr None, logger_error (msg_error @ str_exn env e) lg'))"

subsection \<open>\<open>log_weather_summary\<close> (lines 191 to 243)\<close>

text \<open>
  Lines 230 to 233: \<open>weather_codes.get(code, f"... {code}")\<close>, an exact lookup of the
  integer key with the formatted code as the default.
\<close>

definition weather_description :: "int \<Rightarrow> pystr" where
  "weather_description code =
     (case map_of weather_codes code of
        Some d \<Rightarrow> d
      | None \<Rightarrow> msg_code @ str_int code)"

text \<open>
  The nine calls of \<open>logger.info\<close>, lines 235 to 243, in order. Nothing is logged for a
  missing record (line 193).
\<close>

definition log_weather_summary :: "env \<Rightarrow> weather_data option \<Rightarrow> log \<Rightarrow> (exn + unit) \<times> log" where
  "log_weather_summary env weather_data lg =
     (case weather_data of
        None \<Rightarrow> (Inr (), lg)
      | Some wd \<Rightarrow>
          (let c = current wd;
               description = weather_description (weather_code c);
               lg1 = logger_info label_header lg;
               lg2 = logger_info (label_observed @ time_msk c) lg1;
               lg3 = logger_info (label_requested @ timestamp wd) lg2;
               lg4 = logger_info (label_temperature @ repr_float env (temperature c)
                        @ label_feels_like @ repr_float env (apparent_temperature c)
                        @ label_feels_like_end) lg3;
               lg5 = logger_info (label_humidity @ str_int (humidity c) @ A ''%'') lg4;
               lg6 = logger_info (label_weather @ description) lg5;
               lg7 = logger_info (label_wind @ repr_float env (wind_speed c) @ label_gusts
                        @ repr_float env (wind_gusts c) @ label_kmh) lg6;
               lg8 = logger_info (label_pressure @ str_int (surface_pressure c) @ A '' hPa'') lg7;
               lg9 = logger_info (label_precipitation @ repr_float env (precipitation c)
                        @ label_mmh) lg8
           in (Inr (), lg9)))"

section \<open>Sample inputs\<close>

text \<open>
  Concrete surroundings, responses and clients on which the properties below are
  evaluated. The clock reads 2024-01-15 12:00:00.25 UTC and one second more at each
  later reading; the texts of \<open>repr\<close> and of the library's exceptions are stand-ins.
\<close>

definition sample_env :: env where
  "sample_env =
     \<lparr>local_utcoffset = (\<lambda>c. 0),
      msk_history = (\<lambda>u. 14400),
      clock = (\<lambda>k. (1705320000 + int k, 250000)),
      repr_float = (\<lambda>f. A ''<float>''),
      exc_text = (\<lambda>e. A ''<error>'')\<rparr>"

text \<open>
  A current-conditions block observed at time \<open>t\<close> that holds the slots \<open>vs\<close>; reading a
  slot it does not hold raises.
\<close>

definition current_of :: "int \<Rightarrow> pyfloat list \<Rightarrow> variables_with_time" where
  "current_of t vs =
     \<lparr>Time = Inr t,
      Variables_Value = (\<lambda>i. if i < length vs then Inr (vs ! i)
                              else Inl (External (A ''slot missing'')))\<rparr>"

definition response_of :: "variables_with_time \<Rightarrow> response" where
  "response_of cur = \<lparr>Elevation = Inr (Finite 130), Current = Inr cur,
                        Hourly = Inr (), Daily = Inr ()\<rparr>"

text \<open>A client that answers every request with \<open>rs\<close>.\<close>

definition client_of :: "response list \<Rightarrow> client" where
  "client_of rs = (\<lambda>u p. Inr rs)"

text \<open>A client that answers with \<open>rs\<close> only when it is asked for \<open>d\<close> forecast days.\<close>

definition client_for_days :: "int \<Rightarrow> response list \<Rightarrow> client" where
  "client_for_days d rs =
     (\<lambda>u p. if param_forecast_days p = d then Inr rs
            else Inl (External (A ''another request'')))"

text \<open>The coordinates of \<open>main\<close>: 50.36, 36.36.\<close>

definition lat0 :: pyfloat where
  "lat0 = Finite (5036 / 100)"

definition lon0 :: pyfloat where
  "lon0 = Finite (3636 / 100)"

text \<open>
  Fourteen slots: 18.456, 63.4, 16.71, 0.25, 0.25, 0, 0, 61.9, 74.8, 1013.25, 995.61,
  12.34, 224.6, 20.96.
\<close>

definition sample_slots :: "rat list" where
  "sample_slots =
     [18456 / 1000, 634 / 10, 1671 / 100, 25 / 100, 25 / 100, 0, 0, 619 / 10, 748 / 10,
      101325 / 100, 99561 / 100, 1234 / 100, 2246 / 10, 2096 / 100]"

definition sample_response :: response where
  "sample_response = response_of (current_of 1705320000 (map Finite sample_slots))"

text \<open>The record the program builds from it for a three-day forecast.\<close>

definition sample_record :: weather_data where
  "sample_record =
     \<lparr>timestamp = A ''2024-01-15 15:00:00'',
      timestamp_utc = A ''2024-01-15T12:00:01.250000+00:00'',
      coordinates = \<lparr>latitude = lat0, longitude = lon0, elevation = Finite 130\<rparr>,
      current =
        \<lparr>time_utc = A ''2024-01-15T12:00:00+00:00'',
         time_msk = A ''2024-01-15 15:00:00'',
         temperature = Finite (185 / 10),
         humidity = 63,
         apparent_temperature = Finite (167 / 10),
         precipitation = Finite (2 / 10),
         rain = Finite (2 / 10),
         showers = Finite 0,
         snowfall = Finite 0,
         weather_code = 61,
         cloud_cover = 75,
         pressure_msl = 1013,
         surface_pressure = 996,
         wind_speed = Finite (123 / 10),
         wind_direction = 225,
         wind_gusts = Finite (210 / 10)\<rparr>,
      forecast_days = 3,
      units = \<lparr>unit_temperature = degrees_C, unit_precipitation = A ''mm'',
               unit_pressure = A ''hPa'', unit_wind_speed = A ''km/h''\<rparr>\<rparr>"

text \<open>
  Slots whose integer fields lie halfway between two integers: humidity 62.5, cloud
  cover 63.5, pressures 1012.5 and 995.5, wind direction 225.5.
\<close>

definition halfway_slots :: "rat list" where
  "halfway_slots =
     [18456 / 1000, 125 / 2, 1671 / 100, 25 / 100, 25 / 100, 0, 0, 619 / 10, 127 / 2,
      2025 / 2, 1991 / 2, 1234 / 100, 451 / 2, 2096 / 100]"

definition halfway_response :: response where
  "halfway_response = response_of (current_of 1705320000 (map Finite halfway_slots))"

definition halfway_record :: weather_data where
  "halfway_record =
     sample_record\<lparr>current := (current sample_record)
       \<lparr>humidity := 62, cloud_cover := 64, pressure_msl := 1012, surface_pressure := 996,
        wind_direction := 226\<rparr>\<rparr>"

text \<open>A response with only the first thirteen slots.\<close>

definition short_response :: response where
  "short_response = response_of (current_of 1705320000 (map Finite (take 13 sample_slots)))"

text \<open>A response whose humidity slot is NaN.\<close>

definition nan_response :: response where
  "nan_response =
     response_of (current_of 1705320000 ((map Finite sample_slots)[1 := NaN]))"

text \<open>
  A response whose temperature slot is NaN and whose gusts slot is an infinity, and the
  record the program builds from it: both values are kept.
\<close>

definition nan_temperature_response :: response where
  "nan_temperature_response =
     response_of (current_of 1705320000 ((map Finite sample_slots)[0 := NaN, 13 := PosInf]))"

definition nan_temperature_record :: weather_data where
  "nan_temperature_record =
     sample_record\<lparr>current := (current sample_record)
       \<lparr>temperature := NaN, wind_gusts := PosInf\<rparr>\<rparr>"

text \<open>A response observed in the last second of the year 9999.\<close>

definition late_response :: response where
  "late_response = response_of (current_of 253402300799 (map Finite sample_slots))"

text \<open>
  Its record: the conversion to Moscow time overflows, and the field \<open>time_msk\<close> holds
  the UTC string.
\<close>

definition late_record :: weather_data where
  "late_record =
     sample_record\<lparr>current := (current sample_record)
       \<lparr>time_utc := A ''9999-12-31T23:59:59+00:00'',
        time_msk := A ''9999-12-31T23:59:59+00:00''\<rparr>\<rparr>"

section \<open>Properties\<close>

subsection \<open>Rounding\<close>

text \<open>C's \<open>round\<close> is within one half of its argument.\<close>

lemma c_round_near: "\<bar>x - of_int (c_round x)\<bar> \<le> 1 / 2"
proof (cases "0 \<le> x")
  case True
  then have "c_round x = \<lfloor>x + 1 / 2\<rfloor>" by (simp add: c_round_def)
  with floor_correct[of "x + 1 / 2"] show ?thesis by linarith
next
  case False
  then have "c_round x = \<lceil>x - 1 / 2\<rceil>" by (simp add: c_round_def)
  with ceiling_correct[of "x - 1 / 2"] show ?thesis by linarith
qed

text \<open>Its values a quarter, a half and three quarters above an integer.\<close>

lemma c_round_quarters:
  "c_round (of_int k + 1 / 4) = k" "c_round (of_int k + 3 / 4) = k + 1"
  "c_round (of_int k + 1 / 2) = (if 0 \<le> k then k + 1 else k)"
proof -
  have pos: "(0 \<le> (of_int k :: rat) + 1 / 4) = (0 \<le> k)" "(0 \<le> (of_int k :: rat) + 3 / 4) = (0 \<le> k)"
            "(0 \<le> (of_int k :: rat) + 1 / 2) = (0 \<le> k)"
    by linarith+
  show "c_round (of_int k + 1 / 4) = k"
    unfolding c_round_def pos by (auto intro!: floor_unique ceiling_unique)
  show "c_round (of_int k + 3 / 4) = k + 1"
    unfolding c_round_def pos by (auto intro!: floor_unique ceiling_unique)
  show "c_round (of_int k + 1 / 2) = (if 0 \<le> k then k + 1 else k)"
    unfolding c_round_def pos by (auto intro!: floor_unique ceiling_unique)
qed

text \<open>
  \<open>round(x)\<close> of a float halfway between two integers is the even one of the two.
\<close>

lemma float_round_half: "float_round (of_int n + 1 / 2) = (if even n then n else n + 1)"
proof -
  define x :: rat where "x = of_int n + 1 / 2"
  have c1: "c_round x = (if 0 \<le> n then n + 1 else n)"
    unfolding x_def by (rule c_round_quarters)
  have "\<bar>x - of_int (c_round x)\<bar> = 1 / 2"
    unfolding c1 by (simp add: x_def)
  then have fr: "float_round x = 2 * c_round (x / 2)"
    by (simp add: float_round_def Let_def)
  show ?thesis
  proof (cases "even n")
    case True
    then obtain k where k: "n = 2 * k" by (auto elim: evenE)
    have "x / 2 = of_int k + 1 / 4" by (simp add: x_def k)
    then have "c_round (x / 2) = k" by (simp only: c_round_quarters)
    with fr have "float_round x = n" by (simp add: k)
    with True show ?thesis unfolding x_def by simp
  next
    case False
    then obtain k where k: "n = 2 * k + 1" by (auto elim: oddE)
    have "x / 2 = of_int k + 3 / 4" by (simp add: x_def k)
    then have "c_round (x / 2) = k + 1" by (simp only: c_round_quarters)
    with fr have "float_round x = n + 1" by (simp add: k)
    with False show ?thesis unfolding x_def by simp
  qed
qed

text \<open>\<open>round(x)\<close> is within one half of \<open>x\<close>.\<close>

lemma float_round_near: "\<bar>x - of_int (float_round x)\<bar> \<le> 1 / 2"
proof (cases "\<bar>x - of_int (c_round x)\<bar> = 1 / 2")
  case False
  then show ?thesis using c_round_near[of x] by (simp add: float_round_def Let_def)
next
  case True
  have "\<exists>n. x = of_int n + 1 / 2"
  proof (cases "x - of_int (c_round x) = 1 / 2")
    case True
    then have "x = of_int (c_round x) + 1 / 2" by simp
    then show ?thesis by blast
  next
    case False
    with True have "x - of_int (c_round x) = - (1 / 2)" by linarith
    then have "x = of_int (c_round x - 1) + 1 / 2" by simp
    then show ?thesis by blast
  qed
  then obtain n where n: "x = of_int n + 1 / 2" ..
  show ?thesis unfolding n float_round_half by auto
qed

text \<open>\<open>int(x)\<close> drops the fraction: it is the integer part of \<open>x\<close>, towards zero.\<close>

lemma float_trunc_bounds:
  "\<bar>of_int (float_trunc x)\<bar> \<le> \<bar>x\<bar> \<and> \<bar>x\<bar> < \<bar>of_int (float_trunc x)\<bar> + 1"
proof (cases "0 \<le> x")
  case True
  with floor_correct[of x] show ?thesis by (simp add: float_trunc_def)
next
  case False
  then have "\<lceil>x\<rceil> \<le> 0" by (simp add: ceiling_le_zero)
  then have "(of_int \<lceil>x\<rceil> :: rat) \<le> 0" by simp
  with False ceiling_correct[of x] show ?thesis by (simp add: float_trunc_def)
qed

text \<open>\<open>round(x, 1)\<close> is within one twentieth of \<open>x\<close>.\<close>

lemma round_1_near: "\<bar>x - round_1 x\<bar> \<le> 1 / 20"
  using float_round_near[of "x * 10"] unfolding round_1_def by (simp add: field_simps)

subsection \<open>The structure of \<open>get_weather_data\<close>\<close>

lemma bindE_simps [simp]:
  "bindE (Inl e) f = Inl e" "bindE (Inr v) f = f v"
  by (simp_all add: bindE_def)

lemma py_round_InrD: "py_round v = Inr r \<Longrightarrow> \<exists>x. v = Finite x \<and> r = float_round x"
  by (cases v) auto

lemma py_int_InrD: "py_int v = Inr r \<Longrightarrow> \<exists>x. v = Finite x \<and> r = float_trunc x"
  by (cases v) auto

lemma less_14: "(i::nat) < 14 \<Longrightarrow>
    i = 0 \<or> i = 1 \<or> i = 2 \<or> i = 3 \<or> i = 4 \<or> i = 5 \<or> i = 6 \<or> i = 7 \<or> i = 8 \<or> i = 9
      \<or> i = 10 \<or> i = 11 \<or> i = 12 \<or> i = 13"
  by arith

lemma make_current_finite:
  assumes "\<forall>i<14. Variables_Value cur i = Inr (Finite (v i))"
  shows "make_current cur a b =
     Inr \<lparr>time_utc = a, time_msk = b,
          temperature = Finite (round_1 (v 0)),
          humidity = float_round (v 1),
          apparent_temperature = Finite (round_1 (v 2)),
          precipitation = Finite (round_1 (v 3)),
          rain = Finite (round_1 (v 4)),
          showers = Finite (round_1 (v 5)),
          snowfall = Finite (round_1 (v 6)),
          weather_code = float_trunc (v 7),
          cloud_cover = float_round (v 8),
          pressure_msl = float_round (v 9),
          surface_pressure = float_round (v 10),
          wind_speed = Finite (round_1 (v 11)),
          wind_direction = float_round (v 12),
          wind_gusts = Finite (round_1 (v 13))\<rparr>"
proof -
  have "Variables_Value cur 0 = Inr (Finite (v 0))" "Variables_Value cur 1 = Inr (Finite (v 1))"
    "Variables_Value cur 2 = Inr (Finite (v 2))" "Variables_Value cur 3 = Inr (Finite (v 3))"
    "Variables_Value cur 4 = Inr (Finite (v 4))" "Variables_Value cur 5 = Inr (Finite (v 5))"
    "Variables_Value cur 6 = Inr (Finite (v 6))" "Variables_Value cur 7 = Inr (Finite (v 7))"
    "Variables_Value cur 8 = Inr (Finite (v 8))" "Variables_Value cur 9 = Inr (Finite (v 9))"
    "Variables_Value cur 10 = Inr (Finite (v 10))" "Variables_Value cur 11 = Inr (Finite (v 11))"
    "Variables_Value cur 12 = Inr (Finite (v 12))" "Variables_Value cur 13 = Inr (Finite (v 13))"
    using assms by simp_all
  then show ?thesis by (simp add: make_current_def)
qed

lemma make_current_InrD:
  assumes "make_current cur a b = Inr c"
  shows "(\<forall>i<14. \<exists>x. Variables_Value cur i = Inr x)"
    and "(\<forall>i\<in>{1, 7, 8, 9, 10, 12}. \<exists>x. Variables_Value cur i = Inr (Finite x))"
proof -
  from assms obtain v0 v1 r1 v2 v3 v4 v5 v6 v7 r7 v8 r8 v9 r9 v10 r10 v11 v12 r12 v13 where
    s: "Variables_Value cur 0 = Inr v0" "Variables_Value cur 1 = Inr v1"
       "Variables_Value cur 2 = Inr v2" "Variables_Value cur 3 = Inr v3"
       "Variables_Value cur 4 = Inr v4" "Variables_Value cur 5 = Inr v5"
       "Variables_Value cur 6 = Inr v6" "Variables_Value cur 7 = Inr v7"
       "Variables_Value cur 8 = Inr v8" "Variables_Value cur 9 = Inr v9"
       "Variables_Value cur 10 = Inr v10" "Variables_Value cur 11 = Inr v11"
       "Variables_Value cur 12 = Inr v12" "Variables_Value cur 13 = Inr v13"
    and r: "py_round v1 = Inr r1" "py_int v7 = Inr r7" "py_round v8 = Inr r8"
       "py_round v9 = Inr r9" "py_round v10 = Inr r10" "py_round v12 = Inr r12"
    unfolding make_current_def by (auto simp: bindE_def split: sum.splits)
  show "\<forall>i<14. \<exists>x. Variables_Value cur i = Inr x"
  proof (intro allI impI)
    fix i :: nat assume "i < 14"
    from less_14[OF this] s show "\<exists>x. Variables_Value cur i = Inr x" by auto
  qed
  from r s show "\<forall>i\<in>{1, 7, 8, 9, 10, 12}. \<exists>x. Variables_Value cur i = Inr (Finite x)"
    by (auto dest!: py_round_InrD py_int_InrD)
qed

lemma convert_returns: "\<exists>r. fst (convert_utc_to_msk_pytz env s lg) = Inr r"
  by (simp add: convert_utc_to_msk_pytz_def split: sum.splits)

lemma get_weather_data_returns: "\<exists>r. fst (get_weather_data env client lat lon days lg) = Inr r"
  by (simp add: get_weather_data_def split: sum.splits prod.splits)

lemma get_weather_data_SomeD:
  assumes "client url (make_params lat lon days) = Inr (resp # rest)"
      and "Current resp = Inr cur"
      and "fst (get_weather_data env client lat lon days lg) = Inr (Some wd)"
  shows "(\<exists>a b. make_current cur a b = Inr (current wd)) \<and> forecast_days wd = days"
  using assms
  by (auto simp: get_weather_data_def get_weather_data_try_def Let_def read_response_def
        make_weather_data_def bindE_def split: sum.splits prod.splits if_splits; blast)

lemma get_weather_data_None_logged:
  assumes "fst (get_weather_data env client lat lon days lg) = Inr None"
  shows "\<exists>m. snd (get_weather_data env client lat lon days lg) \<noteq> [] \<and>
           last (snd (get_weather_data env client lat lon days lg)) = (ERROR, m)"
  using assms
  by (auto simp: get_weather_data_def get_weather_data_try_def Let_def logger_error_def
        split: sum.splits prod.splits if_splits)

lemma get_weather_data_forecast_days:
  "fst (get_weather_data env client lat lon days lg) = Inr (Some wd) \<Longrightarrow> forecast_days wd = days"
  by (auto simp: get_weather_data_def get_weather_data_try_def Let_def
        make_weather_data_def bindE_def split: sum.splits prod.splits if_splits)

lemma get_weather_data_client_error:
  assumes "client url (make_params lat lon days) = Inl e"
  shows "get_weather_data env client lat lon days lg =
     (Inr None, lg @ [(INFO, msg_request @ repr_float env lat @ A '', '' @ repr_float env lon),
                      (ERROR, msg_error @ str_exn env e)])"
  using assms
  by (simp add: get_weather_data_def get_weather_data_try_def Let_def logger_info_def
        logger_error_def)

lemma get_weather_data_empty:
  assumes "client url (make_params lat lon days) = Inr []"
  shows "get_weather_data env client lat lon days lg =
     (Inr None, lg @ [(INFO, msg_request @ repr_float env lat @ A '', '' @ repr_float env lon),
                      (ERROR, msg_empty)])"
  using assms
  by (simp add: get_weather_data_def get_weather_data_try_def Let_def logger_info_def
        logger_error_def)

lemma get_weather_data_handler:
  assumes "fst (get_weather_data_try env client lat lon days lg) = Inl e"
  shows "get_weather_data env client lat lon days lg =
     (Inr None, snd (get_weather_data_try env client lat lon days lg)
                  @ [(ERROR, msg_error @ str_exn env e)])"
  using assms
  by (cases "get_weather_data_try env client lat lon days lg")
     (simp add: get_weather_data_def logger_error_def)

lemma get_weather_data_try_nonempty:
  assumes "client url (make_params lat lon days) = Inr (resp # rest)"
  shows "fst (get_weather_data_try env client lat lon days lg) \<noteq> Inr None"
  using assms
  by (auto simp: get_weather_data_try_def Let_def split: sum.splits prod.splits)

lemma get_weather_data_success_eq:
  assumes "client url (make_params lat lon days) = Inr (resp # rest)"
      and "read_response resp = Inr (cur, s)"
      and "convert_utc_to_msk_pytz env s
             (logger_info (msg_request @ repr_float env lat @ A '', '' @ repr_float env lon) lg)
           = (Inr m, lg2)"
      and "get_current_msk_time env 0 = Inr ts"
      and "now env 1 UTC = Inr n"
      and "Elevation resp = Inr el"
      and "make_current cur s m = Inr c"
  shows "get_weather_data env client lat lon days lg =
     (Inr (Some \<lparr>timestamp = ts, timestamp_utc = isoformat n,
                  coordinates = \<lparr>latitude = lat, longitude = lon, elevation = el\<rparr>,
                  current = c, forecast_days = days,
                  units = \<lparr>unit_temperature = degrees_C, unit_precipitation = A ''mm'',
                           unit_pressure = A ''hPa'', unit_wind_speed = A ''km/h''\<rparr>\<rparr>),
      logger_info msg_success lg2)"
  using assms
  by (simp add: get_weather_data_def get_weather_data_try_def Let_def make_weather_data_def)

lemma read_response_eq:
  assumes "Current resp = Inr cur" "Hourly resp = Inr ()" "Daily resp = Inr ()"
      and "Time cur = Inr t" "in_range t"
  shows "read_response resp = Inr (cur, isoformat (of_wall_seconds t 0 (Some 0)))"
  using assms by (simp add: read_response_def fromtimestamp_utc_def)

lemma make_current_bad:
  assumes "(\<exists>i<14. \<exists>e. Variables_Value cur i = Inl e) \<or>
           (\<exists>i\<in>{1, 7, 8, 9, 10, 12}. Variables_Value cur i \<in> {Inr NaN, Inr PosInf, Inr NegInf})"
  shows "\<exists>e. make_current cur a b = Inl e"
proof (cases "make_current cur a b")
  case (Inl e)
  then show ?thesis by blast
next
  case (Inr c)
  note d = make_current_InrD[OF Inr]
  from assms show ?thesis
  proof
    assume "\<exists>i<14. \<exists>e. Variables_Value cur i = Inl e"
    then obtain i e where "i < 14" "Variables_Value cur i = Inl e" by blast
    with d(1) show ?thesis by fastforce
  next
    assume "\<exists>i\<in>{1, 7, 8, 9, 10, 12}. Variables_Value cur i \<in> {Inr NaN, Inr PosInf, Inr NegInf}"
    then obtain i where i: "i \<in> {1, 7, 8, 9, 10, 12}"
      and "Variables_Value cur i \<in> {Inr NaN, Inr PosInf, Inr NegInf}" by blast
    moreover from d(2) i obtain x where "Variables_Value cur i = Inr (Finite x)" by blast
    ultimately show ?thesis by auto
  qed
qed

text \<open>
  When all fourteen slots can be read, the fields of a record that is built are the
  rounded slots, with whatever \<open>round(x, 1)\<close> returns for the eight float fields.
\<close>

lemma make_current_fields:
  assumes "make_current cur a b = Inr c"
      and "\<forall>i<14. Variables_Value cur i = Inr (s i)"
  shows "temperature c = py_round_1 (s 0)
       \<and> py_round (s 1) = Inr (humidity c)
       \<and> apparent_temperature c = py_round_1 (s 2)
       \<and> precipitation c = py_round_1 (s 3)
       \<and> rain c = py_round_1 (s 4)
       \<and> showers c = py_round_1 (s 5)
       \<and> snowfall c = py_round_1 (s 6)
       \<and> py_int (s 7) = Inr (weather_code c)
       \<and> py_round (s 8) = Inr (cloud_cover c)
       \<and> py_round (s 9) = Inr (pressure_msl c)
       \<and> py_round (s 10) = Inr (surface_pressure c)
       \<and> wind_speed c = py_round_1 (s 11)
       \<and> py_round (s 12) = Inr (wind_direction c)
       \<and> wind_gusts c = py_round_1 (s 13)"
proof -
  have "Variables_Value cur 0 = Inr (s 0)" "Variables_Value cur 1 = Inr (s 1)"
    "Variables_Value cur 2 = Inr (s 2)" "Variables_Value cur 3 = Inr (s 3)"
    "Variables_Value cur 4 = Inr (s 4)" "Variables_Value cur 5 = Inr (s 5)"
    "Variables_Value cur 6 = Inr (s 6)" "Variables_Value cur 7 = Inr (s 7)"
    "Variables_Value cur 8 = Inr (s 8)" "Variables_Value cur 9 = Inr (s 9)"
    "Variables_Value cur 10 = Inr (s 10)" "Variables_Value cur 11 = Inr (s 11)"
    "Variables_Value cur 12 = Inr (s 12)" "Variables_Value cur 13 = Inr (s 13)"
    using assms(2) by simp_all
  with assms(1) show ?thesis
    by (auto simp: make_current_def bindE_def split: sum.splits)
qed

text \<open>It is built when the six slots converted to an integer are finite.\<close>

lemma make_current_readable:
  assumes "\<forall>i<14. Variables_Value cur i = Inr (s i)"
      and "\<forall>i\<in>{1, 7, 8, 9, 10, 12}. \<exists>x. s i = Finite x"
  shows "\<exists>c. make_current cur a b = Inr c"
proof -
  from assms(2) obtain x1 x7 x8 x9 x10 x12 where
    "s 1 = Finite x1" "s 7 = Finite x7" "s 8 = Finite x8" "s 9 = Finite x9"
    "s 10 = Finite x10" "s 12 = Finite x12"
    by auto
  moreover have "Variables_Value cur 0 = Inr (s 0)" "Variables_Value cur 1 = Inr (s 1)"
    "Variables_Value cur 2 = Inr (s 2)" "Variables_Value cur 3 = Inr (s 3)"
    "Variables_Value cur 4 = Inr (s 4)" "Variables_Value cur 5 = Inr (s 5)"
    "Variables_Value cur 6 = Inr (s 6)" "Variables_Value cur 7 = Inr (s 7)"
    "Variables_Value cur 8 = Inr (s 8)" "Variables_Value cur 9 = Inr (s 9)"
    "Variables_Value cur 10 = Inr (s 10)" "Variables_Value cur 11 = Inr (s 11)"
    "Variables_Value cur 12 = Inr (s 12)" "Variables_Value cur 13 = Inr (s 13)"
    using assms(1) by simp_all
  ultimately show ?thesis by (simp add: make_current_def)
qed

text \<open>
  Every current-conditions block is of one of three kinds: a slot cannot be read, a slot
  converted to an integer is NaN or an infinity, or neither.
\<close>

lemma slots_good_or_bad:
  "(\<exists>i<14. \<exists>e. Variables_Value cur i = Inl e)
   \<or> (\<exists>i\<in>{1, 7, 8, 9, 10, 12}. Variables_Value cur i \<in> {Inr NaN, Inr PosInf, Inr NegInf})
   \<or> (\<exists>s. (\<forall>i<14. Variables_Value cur i = Inr (s i))
          \<and> (\<forall>i\<in>{1, 7, 8, 9, 10, 12}. \<exists>x. s i = Finite x))"
proof (cases "\<exists>i<14. \<exists>e. Variables_Value cur i = Inl e")
  case True
  then show ?thesis by blast
next
  case False
  then have r: "\<forall>i<14. Variables_Value cur i = Inr (projr (Variables_Value cur i))"
    by (metis sum.collapse(2) isl_def)
  show ?thesis
  proof (cases "\<exists>i\<in>{1, 7, 8, 9, 10, 12}. Variables_Value cur i \<in> {Inr NaN, Inr PosInf, Inr NegInf}")
    case True
    then show ?thesis by blast
  next
    case False
    have "\<forall>i\<in>{1, 7, 8, 9, 10, 12}. \<exists>x. projr (Variables_Value cur i) = Finite x"
    proof
      fix i :: nat assume i: "i \<in> {1, 7, 8, 9, 10, 12}"
      then have "i < 14" by auto
      with r have e: "Variables_Value cur i = Inr (projr (Variables_Value cur i))" by blast
      from False i have "Variables_Value cur i \<notin> {Inr NaN, Inr PosInf, Inr NegInf}" by blast
      with e show "\<exists>x. projr (Variables_Value cur i) = Finite x"
        by (cases "projr (Variables_Value cur i)") auto
    qed
    with r have "(\<forall>i<14. Variables_Value cur i = Inr ((\<lambda>j. projr (Variables_Value cur j)) i))
          \<and> (\<forall>i\<in>{1, 7, 8, 9, 10, 12}. \<exists>x. (\<lambda>j. projr (Variables_Value cur j)) i = Finite x)"
      by simp
    then have "\<exists>s. (\<forall>i<14. Variables_Value cur i = Inr (s i))
          \<and> (\<forall>i\<in>{1, 7, 8, 9, 10, 12}. \<exists>x. s i = Finite x)"
      by (rule exI[of _ "\<lambda>j. projr (Variables_Value cur j)"])
    then show ?thesis by blast
  qed
qed

subsection \<open>Runs on the sample inputs\<close>

lemma run_sample:
  "get_weather_data sample_env (client_of [sample_response]) lat0 lon0 3 [] =
     (Inr (Some sample_record),
      [(INFO, msg_request @ A ''<float>, <float>''), (INFO, msg_success)])"
  by code_simp

lemma run_halfway:
  "fst (get_weather_data sample_env (client_of [halfway_response]) lat0 lon0 3 []) =
     Inr (Some halfway_record)"
  by code_simp

lemma run_short:
  "get_weather_data sample_env (client_of [short_response]) lat0 lon0 3 [] =
     (Inr None,
      [(INFO, msg_request @ A ''<float>, <float>''),
       (ERROR, msg_error @ A ''slot missing'')])"
  by code_simp

lemma run_nan:
  "get_weather_data sample_env (client_of [nan_response]) lat0 lon0 3 [] =
     (Inr None,
      [(INFO, msg_request @ A ''<float>, <float>''), (ERROR, msg_error @ A ''<error>'')])"
  by code_simp

lemma run_late:
  "get_weather_data sample_env (client_of [late_response]) lat0 lon0 3 [] =
     (Inr (Some late_record),
      [(INFO, msg_request @ A ''<float>, <float>''),
       (ERROR, msg_convert_error @ A ''<error>''), (INFO, msg_success)])"
  by code_simp

lemma run_17:
  "fst (get_weather_data sample_env (client_for_days 17 [sample_response]) lat0 lon0 17 []) =
     Inr (Some (sample_record\<lparr>forecast_days := 17\<rparr>))"
  by code_simp

lemma run_nan_temperature:
  "get_weather_data sample_env (client_of [nan_temperature_response]) lat0 lon0 3 [] =
     (Inr (Some nan_temperature_record),
      [(INFO, msg_request @ A ''<float>, <float>''), (INFO, msg_success)])"
  by code_simp

text \<open>The two readings of the clock in the sample surroundings succeed.\<close>

lemma sample_clock:
  "get_current_msk_time sample_env 0 = Inr (A ''2024-01-15 15:00:00'')"
  "\<not> isl (now sample_env 1 UTC)"
  by code_simp+

lemma sample_slots_finite:
  "\<forall>i<14. Variables_Value (current_of t (map Finite sample_slots)) i = Inr (Finite (sample_slots ! i))"
proof -
  have "length sample_slots = 14" by (simp add: sample_slots_def)
  then show ?thesis by (simp add: current_of_def)
qed

lemma halfway_slots_finite:
  "\<forall>i<14. Variables_Value (current_of t (map Finite halfway_slots)) i = Inr (Finite (halfway_slots ! i))"
proof -
  have "length halfway_slots = 14" by (simp add: halfway_slots_def)
  then show ?thesis by (simp add: current_of_def)
qed

section \<open>The claims\<close>

text \<open>
  C1. For every response whose current-conditions block holds fourteen finite values,
  the record that \<open>get_weather_data\<close> builds has each field rounded as the source
  writes it: temperature, apparent temperature, precipitation, rain, showers, snowfall,
  wind speed and gusts to one decimal (the nearest multiple of one tenth); humidity,
  cloud cover, the two pressures and the wind direction to the nearest integer; the
  weather code by truncation. So 18.456 becomes 18.5, 63.4 becomes 63, and 61.9 becomes
  61 (rounding would give 62). A record is built whenever the other accessors, the
  observation time and the clock are in order.
\<close>

theorem current_conditions_rounded:
  assumes "client url (make_params lat lon days) = Inr (resp # rest)"
      and "Current resp = Inr cur"
      and "\<forall>i<14. Variables_Value cur i = Inr (Finite (v i))"
  shows "(\<forall>wd. fst (get_weather_data env client lat lon days lg) = Inr (Some wd) \<longrightarrow>
            temperature (current wd) = Finite (round_1 (v 0))
          \<and> humidity (current wd) = float_round (v 1)
          \<and> apparent_temperature (current wd) = Finite (round_1 (v 2))
          \<and> precipitation (current wd) = Finite (round_1 (v 3))
          \<and> rain (current wd) = Finite (round_1 (v 4))
          \<and> showers (current wd) = Finite (round_1 (v 5))
          \<and> snowfall (current wd) = Finite (round_1 (v 6))
          \<and> weather_code (current wd) = float_trunc (v 7)
          \<and> cloud_cover (current wd) = float_round (v 8)
          \<and> pressure_msl (current wd) = float_round (v 9)
          \<and> surface_pressure (current wd) = float_round (v 10)
          \<and> wind_speed (current wd) = Finite (round_1 (v 11))
          \<and> wind_direction (current wd) = float_round (v 12)
          \<and> wind_gusts (current wd) = Finite (round_1 (v 13)))
       \<and> (Hourly resp = Inr () \<and> Daily resp = Inr () \<and> (\<exists>t. Time cur = Inr t \<and> in_range t)
            \<and> (\<exists>ts. get_current_msk_time env 0 = Inr ts) \<and> (\<exists>n. now env 1 UTC = Inr n)
            \<and> (\<exists>el. Elevation resp = Inr el)
          \<longrightarrow> (\<exists>wd. fst (get_weather_data env client lat lon days lg) = Inr (Some wd)))
       \<and> (\<forall>x. \<bar>x - round_1 x\<bar> \<le> 1 / 20 \<and> (\<exists>k. round_1 x = of_int k / 10))
       \<and> (\<forall>x. \<bar>x - of_int (float_round x)\<bar> \<le> 1 / 2)
       \<and> (\<forall>x. \<bar>of_int (float_trunc x)\<bar> \<le> \<bar>x\<bar> \<and> \<bar>x\<bar> < \<bar>of_int (float_trunc x)\<bar> + 1)
       \<and> round_1 (18456 / 1000) = 185 / 10 \<and> float_round (634 / 10) = 63
       \<and> float_trunc (619 / 10) = 61 \<and> float_round (619 / 10) = 62"
proof -
  let ?run = "get_weather_data env client lat lon days lg"
  have fields: "\<forall>wd. fst ?run = Inr (Some wd) \<longrightarrow>
            temperature (current wd) = Finite (round_1 (v 0))
          \<and> humidity (current wd) = float_round (v 1)
          \<and> apparent_temperature (current wd) = Finite (round_1 (v 2))
          \<and> precipitation (current wd) = Finite (round_1 (v 3))
          \<and> rain (current wd) = Finite (round_1 (v 4))
          \<and> showers (current wd) = Finite (round_1 (v 5))
          \<and> snowfall (current wd) = Finite (round_1 (v 6))
          \<and> weather_code (current wd) = float_trunc (v 7)
          \<and> cloud_cover (current wd) = float_round (v 8)
          \<and> pressure_msl (current wd) = float_round (v 9)
          \<and> surface_pressure (current wd) = float_round (v 10)
          \<and> wind_speed (current wd) = Finite (round_1 (v 11))
          \<and> wind_direction (current wd) = float_round (v 12)
          \<and> wind_gusts (current wd) = Finite (round_1 (v 13))"
  proof (intro allI impI)
    fix wd assume "fst ?run = Inr (Some wd)"
    from get_weather_data_SomeD[where client = client, OF assms(1,2) this]
    obtain a b where "make_current cur a b = Inr (current wd)" by blast
    then have "current wd = \<lparr>time_utc = a, time_msk = b,
          temperature = Finite (round_1 (v 0)),
          humidity = float_round (v 1),
          apparent_temperature = Finite (round_1 (v 2)),
          precipitation = Finite (round_1 (v 3)),
          rain = Finite (round_1 (v 4)),
          showers = Finite (round_1 (v 5)),
          snowfall = Finite (round_1 (v 6)),
          weather_code = float_trunc (v 7),
          cloud_cover = float_round (v 8),
          pressure_msl = float_round (v 9),
          surface_pressure = float_round (v 10),
          wind_speed = Finite (round_1 (v 11)),
          wind_direction = float_round (v 12),
          wind_gusts = Finite (round_1 (v 13))\<rparr>"
      by (simp add: make_current_finite[OF assms(3)])
    then show "temperature (current wd) = Finite (round_1 (v 0))
          \<and> humidity (current wd) = float_round (v 1)
          \<and> apparent_temperature (current wd) = Finite (round_1 (v 2))
          \<and> precipitation (current wd) = Finite (round_1 (v 3))
          \<and> rain (current wd) = Finite (round_1 (v 4))
          \<and> showers (current wd) = Finite (round_1 (v 5))
          \<and> snowfall (current wd) = Finite (round_1 (v 6))
          \<and> weather_code (current wd) = float_trunc (v 7)
          \<and> cloud_cover (current wd) = float_round (v 8)
          \<and> pressure_msl (current wd) = float_round (v 9)
          \<and> surface_pressure (current wd) = float_round (v 10)
          \<and> wind_speed (current wd) = Finite (round_1 (v 11))
          \<and> wind_direction (current wd) = float_round (v 12)
          \<and> wind_gusts (current wd) = Finite (round_1 (v 13))"
      by simp
  qed
  have built: "Hourly resp = Inr () \<and> Daily resp = Inr () \<and> (\<exists>t. Time cur = Inr t \<and> in_range t)
            \<and> (\<exists>ts. get_current_msk_time env 0 = Inr ts) \<and> (\<exists>n. now env 1 UTC = Inr n)
            \<and> (\<exists>el. Elevation resp = Inr el)
          \<longrightarrow> (\<exists>wd. fst ?run = Inr (Some wd))"
  proof
    assume ok: "Hourly resp = Inr () \<and> Daily resp = Inr () \<and> (\<exists>t. Time cur = Inr t \<and> in_range t)
            \<and> (\<exists>ts. get_current_msk_time env 0 = Inr ts) \<and> (\<exists>n. now env 1 UTC = Inr n)
            \<and> (\<exists>el. Elevation resp = Inr el)"
    then obtain t ts n el where t: "Time cur = Inr t" "in_range t"
      and ts: "get_current_msk_time env 0 = Inr ts" and n: "now env 1 UTC = Inr n"
      and el: "Elevation resp = Inr el" by blast
    from ok have hd: "Hourly resp = Inr ()" "Daily resp = Inr ()" by simp_all
    let ?s = "isoformat (of_wall_seconds t 0 (Some 0))"
    let ?lg1 = "logger_info (msg_request @ repr_float env lat @ A '', '' @ repr_float env lon) lg"
    obtain m where "fst (convert_utc_to_msk_pytz env ?s ?lg1) = Inr m"
      using convert_returns by blast
    then have conv: "convert_utc_to_msk_pytz env ?s ?lg1 =
        (Inr m, snd (convert_utc_to_msk_pytz env ?s ?lg1))"
      by (metis prod.collapse)
    have rr: "read_response resp = Inr (cur, ?s)"
      by (rule read_response_eq[OF assms(2) hd t])
    obtain c where mc: "make_current cur ?s m = Inr c"
      by (simp add: make_current_finite[OF assms(3)])
    from get_weather_data_success_eq[where client = client, OF assms(1) rr conv ts n el mc]
    show "\<exists>wd. fst ?run = Inr (Some wd)" by simp
  qed
  have r1: "\<forall>x. \<bar>x - round_1 x\<bar> \<le> 1 / 20 \<and> (\<exists>k. round_1 x = of_int k / 10)"
    using round_1_near by (auto simp: round_1_def)
  have r0: "\<forall>x. \<bar>x - of_int (float_round x)\<bar> \<le> 1 / 2"
    using float_round_near by blast
  have tr: "\<forall>x. \<bar>of_int (float_trunc x)\<bar> \<le> \<bar>x\<bar> \<and> \<bar>x\<bar> < \<bar>of_int (float_trunc x)\<bar> + 1"
    using float_trunc_bounds by blast
  have ex: "round_1 (18456 / 1000) = 185 / 10" "float_round (634 / 10) = 63"
    "float_trunc (619 / 10) = 61" "float_round (619 / 10) = 62"
    by code_simp+
  from fields built r1 r0 tr ex show ?thesis by blast
qed

theorem current_conditions_rounded_witness:
  "fst (get_weather_data sample_env (client_of [sample_response]) lat0 lon0 3 []) =
     Inr (Some sample_record)
   \<and> temperature (current sample_record) = Finite (round_1 (18456 / 1000))
   \<and> humidity (current sample_record) = float_round (634 / 10)
   \<and> weather_code (current sample_record) = float_trunc (619 / 10)
   \<and> temperature (current sample_record) = Finite (185 / 10)
   \<and> humidity (current sample_record) = 63
   \<and> weather_code (current sample_record) = 61"
proof -
  have call: "client_of [sample_response] url (make_params lat0 lon0 3) = Inr (sample_response # [])"
    by (simp add: client_of_def)
  have cur: "Current sample_response = Inr (current_of 1705320000 (map Finite sample_slots))"
    by (simp add: sample_response_def response_of_def)
  have run: "fst (get_weather_data sample_env (client_of [sample_response]) lat0 lon0 3 []) =
     Inr (Some sample_record)"
    by (simp add: run_sample)
  have slots: "sample_slots ! 0 = 18456 / 1000" "sample_slots ! 1 = 634 / 10"
    "sample_slots ! 7 = 619 / 10"
    by (simp_all add: sample_slots_def)
  have vals: "temperature (current sample_record) = Finite (185 / 10)"
    "humidity (current sample_record) = 63" "weather_code (current sample_record) = 61"
    by (simp_all add: sample_record_def)
  from current_conditions_rounded[where v = "\<lambda>i. sample_slots ! i" and env = sample_env
      and lg = "[]" and client = "client_of [sample_response]", OF call cur sample_slots_finite]
    run
  have "temperature (current sample_record) = Finite (round_1 (sample_slots ! 0))
      \<and> humidity (current sample_record) = float_round (sample_slots ! 1)
      \<and> weather_code (current sample_record) = float_trunc (sample_slots ! 7)"
    by blast
  with run vals show ?thesis unfolding slots by simp
qed

text \<open>
  C2, as the code has it. The code does not validate the number of forecast days and
  has no error for it: for every number outside 1 to 16 the request carries the number
  unchanged, the client is called with that request (its error, if it raises, is the one
  logged), \<open>get_weather_data\<close> returns, and a record it builds carries the number
  unchanged.
\<close>

theorem forecast_days_not_validated:
  assumes "days < 1 \<or> 16 < days"
  shows "param_forecast_days (make_params lat lon days) = days
       \<and> (\<exists>r. fst (get_weather_data env client lat lon days lg) = Inr r)
       \<and> (\<forall>wd. fst (get_weather_data env client lat lon days lg) = Inr (Some wd)
              \<longrightarrow> forecast_days wd = days)
       \<and> (\<forall>e. client url (make_params lat lon days) = Inl e \<longrightarrow>
              get_weather_data env client lat lon days lg =
                (Inr None,
                 lg @ [(INFO, msg_request @ repr_float env lat @ A '', '' @ repr_float env lon),
                       (ERROR, msg_error @ str_exn env e)]))"
  using get_weather_data_returns[of env client lat lon days lg]
    get_weather_data_forecast_days[of env client lat lon days lg]
    get_weather_data_client_error[where client = client and lat = lat and lon = lon
      and days = days and env = env and lg = lg]
  by (simp add: make_params_def)

text \<open>
  The claim as stated fails: asked for 17 days, a client that answers only a request
  for 17 days is reached, and the record comes back with 17 forecast days.
\<close>

theorem forecast_days_17_accepted:
  "fst (get_weather_data sample_env (client_for_days 17 [sample_response]) lat0 lon0 17 []) =
     Inr (Some (sample_record\<lparr>forecast_days := 17\<rparr>))"
  by (rule run_17)

theorem forecast_days_not_validated_witness:
  "((17::int) < 1 \<or> (16::int) < 17)
   \<and> param_forecast_days (make_params lat0 lon0 17) = 17
   \<and> fst (get_weather_data sample_env (client_for_days 17 [sample_response]) lat0 lon0 17 []) =
       Inr (Some (sample_record\<lparr>forecast_days := 17\<rparr>))
   \<and> forecast_days (sample_record\<lparr>forecast_days := 17\<rparr>) = 17"
proof -
  have a: "(17::int) < 1 \<or> (16::int) < 17" by simp
  from forecast_days_not_validated[OF a, of lat0 lon0 sample_env
      "client_for_days 17 [sample_response]" "[]"] run_17 a
  show ?thesis by simp
qed

text \<open>
  C3, as the code has it. There is no check of the number of slots, no check that a
  slot is a number, and no \<open>MalformedResponseError\<close>. What happens depends on the slot:
  \<^item> when reading one of the fourteen slots raises (a slot is missing), or one of the
    six slots converted to an integer (1, 7, 8, 9, 10, 12: humidity, weather code, cloud
    cover, the two pressures, wind direction) holds NaN or an infinity, the exception
    is caught inside \<open>get_weather_data\<close>: it returns \<open>None\<close> and its last log entry is
    the ERROR line of its handler;
  \<^item> when all fourteen slots can be read and those six are finite, nothing fails on
    account of the slots: \<open>round(x, 1)\<close> returns NaN and the infinities unchanged, so a
    NaN or an infinity in one of the other eight slots (0, 2, 3, 4, 5, 6, 11, 13) is
    stored in the record, and when the other accessors, the observation time and the
    clock are in order the record is returned and the success line is logged.

  Every block is of one of these two kinds, and nothing is raised to the caller in
  either.
\<close>

theorem bad_slots_caught_or_kept:
  assumes "client url (make_params lat lon days) = Inr (resp # rest)"
      and "Current resp = Inr cur"
  shows "((\<exists>i<14. \<exists>e. Variables_Value cur i = Inl e) \<or>
          (\<exists>i\<in>{1, 7, 8, 9, 10, 12}. Variables_Value cur i \<in> {Inr NaN, Inr PosInf, Inr NegInf})
          \<longrightarrow> fst (get_weather_data env client lat lon days lg) = Inr None
              \<and> (\<exists>e. get_weather_data env client lat lon days lg =
                     (Inr None, snd (get_weather_data_try env client lat lon days lg)
                                  @ [(ERROR, msg_error @ str_exn env e)])))
       \<and> ((\<forall>i<14. Variables_Value cur i = Inr (s i))
            \<and> (\<forall>i\<in>{1, 7, 8, 9, 10, 12}. \<exists>x. s i = Finite x)
          \<longrightarrow> (\<forall>wd. fst (get_weather_data env client lat lon days lg) = Inr (Some wd) \<longrightarrow>
                    temperature (current wd) = py_round_1 (s 0)
                  \<and> apparent_temperature (current wd) = py_round_1 (s 2)
                  \<and> precipitation (current wd) = py_round_1 (s 3)
                  \<and> rain (current wd) = py_round_1 (s 4)
                  \<and> showers (current wd) = py_round_1 (s 5)
                  \<and> snowfall (current wd) = py_round_1 (s 6)
                  \<and> wind_speed (current wd) = py_round_1 (s 11)
                  \<and> wind_gusts (current wd) = py_round_1 (s 13))
              \<and> (Hourly resp = Inr () \<and> Daily resp = Inr ()
                    \<and> (\<exists>t. Time cur = Inr t \<and> in_range t)
                    \<and> (\<exists>ts. get_current_msk_time env 0 = Inr ts) \<and> (\<exists>n. now env 1 UTC = Inr n)
                    \<and> (\<exists>el. Elevation resp = Inr el)
                  \<longrightarrow> (\<exists>wd. fst (get_weather_data env client lat lon days lg) = Inr (Some wd))
                      \<and> snd (get_weather_data env client lat lon days lg) \<noteq> []
                      \<and> last (snd (get_weather_data env client lat lon days lg))
                          = (INFO, msg_success)))
       \<and> ((\<exists>i<14. \<exists>e. Variables_Value cur i = Inl e)
          \<or> (\<exists>i\<in>{1, 7, 8, 9, 10, 12}. Variables_Value cur i \<in> {Inr NaN, Inr PosInf, Inr NegInf})
          \<or> (\<exists>s'. (\<forall>i<14. Variables_Value cur i = Inr (s' i))
                  \<and> (\<forall>i\<in>{1, 7, 8, 9, 10, 12}. \<exists>x. s' i = Finite x)))
       \<and> py_round_1 NaN = NaN \<and> py_round_1 PosInf = PosInf \<and> py_round_1 NegInf = NegInf"
proof -
  let ?run = "get_weather_data env client lat lon days lg"
  let ?body = "get_weather_data_try env client lat lon days lg"
  have caught: "(\<exists>i<14. \<exists>e. Variables_Value cur i = Inl e) \<or>
          (\<exists>i\<in>{1, 7, 8, 9, 10, 12}. Variables_Value cur i \<in> {Inr NaN, Inr PosInf, Inr NegInf})
          \<longrightarrow> fst ?run = Inr None
              \<and> (\<exists>e. ?run = (Inr None, snd ?body @ [(ERROR, msg_error @ str_exn env e)]))"
  proof
    assume bad: "(\<exists>i<14. \<exists>e. Variables_Value cur i = Inl e) \<or>
          (\<exists>i\<in>{1, 7, 8, 9, 10, 12}. Variables_Value cur i \<in> {Inr NaN, Inr PosInf, Inr NegInf})"
    have no_record: "fst ?run \<noteq> Inr (Some wd)" for wd
    proof
      assume "fst ?run = Inr (Some wd)"
      from get_weather_data_SomeD[where client = client, OF assms(1,2) this]
      obtain a b where "make_current cur a b = Inr (current wd)" by blast
      with make_current_bad[OF bad, of a b] show False by auto
    qed
    have "\<exists>e. fst ?body = Inl e"
    proof (cases "fst ?body")
      case (Inl e)
      then show ?thesis by blast
    next
      case (Inr r)
      with get_weather_data_try_nonempty[where client = client, OF assms(1), of env lg]
      obtain wd where "fst ?body = Inr (Some wd)" by (cases r) auto
      then have "fst ?run = Inr (Some wd)"
        by (cases ?body) (simp add: get_weather_data_def)
      with no_record show ?thesis by blast
    qed
    then obtain e where "fst ?body = Inl e" ..
    from get_weather_data_handler[OF this]
    show "fst ?run = Inr None
        \<and> (\<exists>e. ?run = (Inr None, snd ?body @ [(ERROR, msg_error @ str_exn env e)]))"
      by auto
  qed
  have kept: "(\<forall>i<14. Variables_Value cur i = Inr (s i))
            \<and> (\<forall>i\<in>{1, 7, 8, 9, 10, 12}. \<exists>x. s i = Finite x)
          \<longrightarrow> (\<forall>wd. fst ?run = Inr (Some wd) \<longrightarrow>
                    temperature (current wd) = py_round_1 (s 0)
                  \<and> apparent_temperature (current wd) = py_round_1 (s 2)
                  \<and> precipitation (current wd) = py_round_1 (s 3)
                  \<and> rain (current wd) = py_round_1 (s 4)
                  \<and> showers (current wd) = py_round_1 (s 5)
                  \<and> snowfall (current wd) = py_round_1 (s 6)
                  \<and> wind_speed (current wd) = py_round_1 (s 11)
                  \<and> wind_gusts (current wd) = py_round_1 (s 13))
              \<and> (Hourly resp = Inr () \<and> Daily resp = Inr ()
                    \<and> (\<exists>t. Time cur = Inr t \<and> in_range t)
                    \<and> (\<exists>ts. get_current_msk_time env 0 = Inr ts) \<and> (\<exists>n. now env 1 UTC = Inr n)
                    \<and> (\<exists>el. Elevation resp = Inr el)
                  \<longrightarrow> (\<exists>wd. fst ?run = Inr (Some wd))
                      \<and> snd ?run \<noteq> [] \<and> last (snd ?run) = (INFO, msg_success))"
  proof
    assume good: "(\<forall>i<14. Variables_Value cur i = Inr (s i))
            \<and> (\<forall>i\<in>{1, 7, 8, 9, 10, 12}. \<exists>x. s i = Finite x)"
    then have slots: "\<forall>i<14. Variables_Value cur i = Inr (s i)"
      and ints: "\<forall>i\<in>{1, 7, 8, 9, 10, 12}. \<exists>x. s i = Finite x" by blast+
    have fields: "\<forall>wd. fst ?run = Inr (Some wd) \<longrightarrow>
                    temperature (current wd) = py_round_1 (s 0)
                  \<and> apparent_temperature (current wd) = py_round_1 (s 2)
                  \<and> precipitation (current wd) = py_round_1 (s 3)
                  \<and> rain (current wd) = py_round_1 (s 4)
                  \<and> showers (current wd) = py_round_1 (s 5)
                  \<and> snowfall (current wd) = py_round_1 (s 6)
                  \<and> wind_speed (current wd) = py_round_1 (s 11)
                  \<and> wind_gusts (current wd) = py_round_1 (s 13)"
    proof (intro allI impI)
      fix wd assume "fst ?run = Inr (Some wd)"
      from get_weather_data_SomeD[where client = client, OF assms(1,2) this]
      obtain a b where "make_current cur a b = Inr (current wd)" by blast
      from make_current_fields[OF this slots]
      show "temperature (current wd) = py_round_1 (s 0)
                  \<and> apparent_temperature (current wd) = py_round_1 (s 2)
                  \<and> precipitation (current wd) = py_round_1 (s 3)
                  \<and> rain (current wd) = py_round_1 (s 4)
                  \<and> showers (current wd) = py_round_1 (s 5)
                  \<and> snowfall (current wd) = py_round_1 (s 6)
                  \<and> wind_speed (current wd) = py_round_1 (s 11)
                  \<and> wind_gusts (current wd) = py_round_1 (s 13)"
        by simp
    qed
    have built: "Hourly resp = Inr () \<and> Daily resp = Inr ()
                    \<and> (\<exists>t. Time cur = Inr t \<and> in_range t)
                    \<and> (\<exists>ts. get_current_msk_time env 0 = Inr ts) \<and> (\<exists>n. now env 1 UTC = Inr n)
                    \<and> (\<exists>el. Elevation resp = Inr el)
                  \<longrightarrow> (\<exists>wd. fst ?run = Inr (Some wd))
                      \<and> snd ?run \<noteq> [] \<and> last (snd ?run) = (INFO, msg_success)"
    proof
      assume ok: "Hourly resp = Inr () \<and> Daily resp = Inr ()
                    \<and> (\<exists>t. Time cur = Inr t \<and> in_range t)
                    \<and> (\<exists>ts. get_current_msk_time env 0 = Inr ts) \<and> (\<exists>n. now env 1 UTC = Inr n)
                    \<and> (\<exists>el. Elevation resp = Inr el)"
      then obtain t ts n el where t: "Time cur = Inr t" "in_range t"
        and ts: "get_current_msk_time env 0 = Inr ts" and n: "now env 1 UTC = Inr n"
        and el: "Elevation resp = Inr el" by blast
      from ok have hd: "Hourly resp = Inr ()" "Daily resp = Inr ()" by simp_all
      let ?s = "isoformat (of_wall_seconds t 0 (Some 0))"
      let ?lg1 = "logger_info (msg_request @ repr_float env lat @ A '', '' @ repr_float env lon) lg"
      obtain m where "fst (convert_utc_to_msk_pytz env ?s ?lg1) = Inr m"
        using convert_returns by blast
      then have conv: "convert_utc_to_msk_pytz env ?s ?lg1 =
          (Inr m, snd (convert_utc_to_msk_pytz env ?s ?lg1))"
        by (metis prod.collapse)
      have rr: "read_response resp = Inr (cur, ?s)"
        by (rule read_response_eq[OF assms(2) hd t])
      obtain c where mc: "make_current cur ?s m = Inr c"
        using make_current_readable[OF slots ints] by blast
      from get_weather_data_success_eq[where client = client, OF assms(1) rr conv ts n el mc]
      show "(\<exists>wd. fst ?run = Inr (Some wd))
          \<and> snd ?run \<noteq> [] \<and> last (snd ?run) = (INFO, msg_success)"
        by (simp add: logger_info_def)
    qed
    from fields built
    show "(\<forall>wd. fst ?run = Inr (Some wd) \<longrightarrow>
                    temperature (current wd) = py_round_1 (s 0)
                  \<and> apparent_temperature (current wd) = py_round_1 (s 2)
                  \<and> precipitation (current wd) = py_round_1 (s 3)
                  \<and> rain (current wd) = py_round_1 (s 4)
                  \<and> showers (current wd) = py_round_1 (s 5)
                  \<and> snowfall (current wd) = py_round_1 (s 6)
                  \<and> wind_speed (current wd) = py_round_1 (s 11)
                  \<and> wind_gusts (current wd) = py_round_1 (s 13))
              \<and> (Hourly resp = Inr () \<and> Daily resp = Inr ()
                    \<and> (\<exists>t. Time cur = Inr t \<and> in_range t)
                    \<and> (\<exists>ts. get_current_msk_time env 0 = Inr ts) \<and> (\<exists>n. now env 1 UTC = Inr n)
                    \<and> (\<exists>el. Elevation resp = Inr el)
                  \<longrightarrow> (\<exists>wd. fst ?run = Inr (Some wd))
                      \<and> snd ?run \<noteq> [] \<and> last (snd ?run) = (INFO, msg_success))"
      by (rule conjI)
  qed
  have round: "py_round_1 NaN = NaN \<and> py_round_1 PosInf = PosInf \<and> py_round_1 NegInf = NegInf"
    by simp
  from caught kept slots_good_or_bad[of cur] round show ?thesis by (intro conjI) blast+
qed

text \<open>
  The claim as stated fails on both of its conditions. On a response with thirteen slots
  nothing is raised: the function returns \<open>None\<close> and logs the error of the missing slot.
  On a response whose temperature slot is NaN nothing fails at all: the record is
  returned with NaN as its temperature, and the success line is logged.
\<close>

theorem short_and_nan_responses_not_rejected:
  "get_weather_data sample_env (client_of [short_response]) lat0 lon0 3 [] =
     (Inr None,
      [(INFO, msg_request @ A ''<float>, <float>''),
       (ERROR, msg_error @ A ''slot missing'')])
   \<and> Variables_Value (current_of 1705320000 ((map Finite sample_slots)[0 := NaN, 13 := PosInf])) 0
       = Inr NaN
   \<and> get_weather_data sample_env (client_of [nan_temperature_response]) lat0 lon0 3 [] =
       (Inr (Some nan_temperature_record),
        [(INFO, msg_request @ A ''<float>, <float>''), (INFO, msg_success)])
   \<and> temperature (current nan_temperature_record) = NaN"
proof -
  have "Variables_Value (current_of 1705320000 ((map Finite sample_slots)[0 := NaN, 13 := PosInf])) 0
       = Inr NaN"
    by (simp add: current_of_def sample_slots_def)
  moreover have "temperature (current nan_temperature_record) = NaN"
    by (simp add: nan_temperature_record_def)
  ultimately show ?thesis by (simp add: run_short run_nan_temperature)
qed

theorem bad_slots_caught_or_kept_witness:
  "Variables_Value (current_of 1705320000 ((map Finite sample_slots)[1 := NaN])) 1 = Inr NaN
   \<and> fst (get_weather_data sample_env (client_of [nan_response]) lat0 lon0 3 []) = Inr None
   \<and> snd (get_weather_data sample_env (client_of [nan_response]) lat0 lon0 3 []) =
       [(INFO, msg_request @ A ''<float>, <float>''), (ERROR, msg_error @ A ''<error>'')]
   \<and> Variables_Value (current_of 1705320000 ((map Finite sample_slots)[0 := NaN, 13 := PosInf])) 0
       = Inr NaN
   \<and> Variables_Value (current_of 1705320000 ((map Finite sample_slots)[0 := NaN, 13 := PosInf])) 13
       = Inr PosInf
   \<and> fst (get_weather_data sample_env (client_of [nan_temperature_response]) lat0 lon0 3 [])
       = Inr (Some nan_temperature_record)
   \<and> temperature (current nan_temperature_record) = NaN
   \<and> wind_gusts (current nan_temperature_record) = PosInf
   \<and> last (snd (get_weather_data sample_env (client_of [nan_temperature_response]) lat0 lon0 3 []))
       = (INFO, msg_success)"
proof -
  let ?bad = "current_of 1705320000 ((map Finite sample_slots)[1 := NaN])"
  let ?vs = "(map Finite sample_slots)[0 := NaN, 13 := PosInf]"
  let ?kept = "current_of 1705320000 ?vs"
  let ?run = "get_weather_data sample_env (client_of [nan_temperature_response]) lat0 lon0 3 []"
  have len: "length sample_slots = 14" by (simp add: sample_slots_def)
  have call1: "client_of [nan_response] url (make_params lat0 lon0 3) = Inr (nan_response # [])"
    by (simp add: client_of_def)
  have cur1: "Current nan_response = Inr ?bad"
    by (simp add: nan_response_def response_of_def)
  have slot1: "Variables_Value ?bad 1 = Inr NaN"
    by (simp add: current_of_def sample_slots_def)
  then have bad: "(\<exists>i<14. \<exists>e. Variables_Value ?bad i = Inl e) \<or>
      (\<exists>i\<in>{1, 7, 8, 9, 10, 12}. Variables_Value ?bad i \<in> {Inr NaN, Inr PosInf, Inr NegInf})"
    by simp
  have call2: "client_of [nan_temperature_response] url (make_params lat0 lon0 3)
      = Inr (nan_temperature_response # [])"
    by (simp add: client_of_def)
  have cur2: "Current nan_temperature_response = Inr ?kept"
    by (simp add: nan_temperature_response_def response_of_def)
  have slots2: "\<forall>i<14. Variables_Value ?kept i = Inr (?vs ! i)"
    using len by (simp add: current_of_def)
  have ints2: "\<forall>i\<in>{1, 7, 8, 9, 10, 12}. \<exists>x. ?vs ! i = Finite x"
    using len by simp
  have slot2: "Variables_Value ?kept 0 = Inr NaN" "Variables_Value ?kept 13 = Inr PosInf"
    using len by (simp_all add: current_of_def)
  have ok: "Hourly nan_temperature_response = Inr () \<and> Daily nan_temperature_response = Inr ()
      \<and> (\<exists>t. Time ?kept = Inr t \<and> in_range t)
      \<and> (\<exists>ts. get_current_msk_time sample_env 0 = Inr ts)
      \<and> (\<exists>n. now sample_env 1 UTC = Inr n)
      \<and> (\<exists>el. Elevation nan_temperature_response = Inr el)"
  proof -
    from sample_clock(2) obtain n where "now sample_env 1 UTC = Inr n"
      by (cases "now sample_env 1 UTC") auto
    then show ?thesis
      by (simp add: nan_temperature_response_def response_of_def current_of_def in_range_def
            sample_clock(1))
  qed
  note c3 = bad_slots_caught_or_kept[where env = sample_env and lg = "[]" and lat = lat0
      and lon = lon0 and days = 3]
  from c3[where client = "client_of [nan_response]" and s = "\<lambda>i. NaN", OF call1 cur1] bad
  have none: "fst (get_weather_data sample_env (client_of [nan_response]) lat0 lon0 3 []) = Inr None"
    by blast
  from c3[where client = "client_of [nan_temperature_response]" and s = "\<lambda>i. ?vs ! i",
      OF call2 cur2] slots2 ints2 ok
  have some: "(\<exists>wd. fst ?run = Inr (Some wd)) \<and> last (snd ?run) = (INFO, msg_success)"
    and fields: "\<forall>wd. fst ?run = Inr (Some wd) \<longrightarrow>
        temperature (current wd) = py_round_1 (?vs ! 0)
        \<and> wind_gusts (current wd) = py_round_1 (?vs ! 13)"
    by blast+
  have rec: "fst ?run = Inr (Some nan_temperature_record)"
    by (simp add: run_nan_temperature)
  with fields have "temperature (current nan_temperature_record) = py_round_1 (?vs ! 0)"
    "wind_gusts (current nan_temperature_record) = py_round_1 (?vs ! 13)" by blast+
  with len have "temperature (current nan_temperature_record) = NaN"
    "wind_gusts (current nan_temperature_record) = PosInf" by simp_all
  with none slot1 slot2 some rec show ?thesis by (simp add: run_nan)
qed

text \<open>
  C4. No exception leaves \<open>get_weather_data\<close>. When the client returns an empty list it
  returns \<open>None\<close> after logging one ERROR line; when the client raises, or anything
  raises while the response is read, it returns \<open>None\<close> after logging the ERROR line of
  its handler with the text of the exception; and whenever it returns \<open>None\<close> its last
  log entry is an ERROR line.
\<close>

theorem failures_return_none:
  "(\<exists>r. fst (get_weather_data env client lat lon days lg) = Inr r)
   \<and> (client url (make_params lat lon days) = Inr [] \<longrightarrow>
        get_weather_data env client lat lon days lg =
          (Inr None,
           lg @ [(INFO, msg_request @ repr_float env lat @ A '', '' @ repr_float env lon),
                 (ERROR, msg_empty)]))
   \<and> (\<forall>e. client url (make_params lat lon days) = Inl e \<longrightarrow>
        get_weather_data env client lat lon days lg =
          (Inr None,
           lg @ [(INFO, msg_request @ repr_float env lat @ A '', '' @ repr_float env lon),
                 (ERROR, msg_error @ str_exn env e)]))
   \<and> (\<forall>e. fst (get_weather_data_try env client lat lon days lg) = Inl e \<longrightarrow>
        get_weather_data env client lat lon days lg =
          (Inr None, snd (get_weather_data_try env client lat lon days lg)
                       @ [(ERROR, msg_error @ str_exn env e)]))
   \<and> (fst (get_weather_data env client lat lon days lg) = Inr None \<longrightarrow>
        (\<exists>m. snd (get_weather_data env client lat lon days lg) \<noteq> [] \<and>
             last (snd (get_weather_data env client lat lon days lg)) = (ERROR, m)))"
  using get_weather_data_returns[of env client lat lon days lg]
    get_weather_data_empty[where client = client and lat = lat and lon = lon and days = days
      and env = env and lg = lg]
    get_weather_data_client_error[where client = client and lat = lat and lon = lon
      and days = days and env = env and lg = lg]
    get_weather_data_handler[where client = client and lat = lat and lon = lon
      and days = days and env = env and lg = lg]
    get_weather_data_None_logged[where client = client and lat = lat and lon = lon
      and days = days and env = env and lg = lg]
  by blast

theorem failures_return_none_witness:
  "client_of [] url (make_params lat0 lon0 3) = Inr []
   \<and> get_weather_data sample_env (client_of []) lat0 lon0 3 [] =
       (Inr None, [(INFO, msg_request @ A ''<float>, <float>''), (ERROR, msg_empty)])
   \<and> client_for_days 5 [] url (make_params lat0 lon0 3) = Inl (External (A ''another request''))
   \<and> get_weather_data sample_env (client_for_days 5 []) lat0 lon0 3 [] =
       (Inr None, [(INFO, msg_request @ A ''<float>, <float>''),
                   (ERROR, msg_error @ A ''another request'')])"
proof -
  have a: "client_of [] url (make_params lat0 lon0 3) = Inr []"
    by (simp add: client_of_def)
  have b: "client_for_days 5 [] url (make_params lat0 lon0 3) = Inl (External (A ''another request''))"
    by (simp add: client_for_days_def make_params_def)
  have r: "repr_float sample_env lat0 @ A '', '' @ repr_float sample_env lon0 = A ''<float>, <float>''"
    by (simp add: sample_env_def A_def)
  from failures_return_none[of sample_env "client_of []" lat0 lon0 3 "[]"] a
  have 1: "get_weather_data sample_env (client_of []) lat0 lon0 3 [] =
       (Inr None, [(INFO, msg_request @ A ''<float>, <float>''), (ERROR, msg_empty)])"
    unfolding r by simp
  from failures_return_none[of sample_env "client_for_days 5 []" lat0 lon0 3 "[]"] b
  have 2: "get_weather_data sample_env (client_for_days 5 []) lat0 lon0 3 [] =
       (Inr None, [(INFO, msg_request @ A ''<float>, <float>''),
                   (ERROR, msg_error @ A ''another request'')])"
    unfolding r by (simp add: str_exn_def)
  from a b 1 2 show ?thesis by simp
qed

text \<open>
  C5. \<open>convert_utc_to_msk_pytz\<close> on four strings, in any surroundings:
  \<open>2024-01-15T12:00:00Z\<close> gives \<open>2024-01-15 15:00:00\<close>; the same time with no offset is
  taken as UTC and gives the same; with the offset \<open>+03:00\<close> it gives
  \<open>2024-01-15 12:00:00\<close>. With the offset \<open>-05:00\<close> the string has neither \<open>+\<close> nor \<open>Z\<close>,
  so the branch for strings without an offset is taken, \<open>pytz.UTC.localize\<close> refuses the
  aware datetime, and the string comes back unchanged with an ERROR line: the offset is
  not applied (that would give \<open>2024-01-15 20:00:00\<close>).
\<close>

theorem convert_utc_to_msk_pytz_offsets:
  "convert_utc_to_msk_pytz env (A ''2024-01-15T12:00:00Z'') lg =
     (Inr (A ''2024-01-15 15:00:00''), lg)
   \<and> convert_utc_to_msk_pytz env (A ''2024-01-15T12:00:00'') lg =
     (Inr (A ''2024-01-15 15:00:00''), lg)
   \<and> convert_utc_to_msk_pytz env (A ''2024-01-15T12:00:00+03:00'') lg =
     (Inr (A ''2024-01-15 12:00:00''), lg)
   \<and> convert_utc_to_msk_pytz env (A ''2024-01-15T12:00:00-05:00'') lg =
     (Inr (A ''2024-01-15T12:00:00-05:00''),
      lg @ [(ERROR, msg_convert_error @ exc_text env NotNaive)])"
proof -
  have "convert_utc_to_msk_pytz_try env (A ''2024-01-15T12:00:00Z'') =
      Inr (A ''2024-01-15 15:00:00'')"
    by code_simp
  moreover have "convert_utc_to_msk_pytz_try env (A ''2024-01-15T12:00:00'') =
      Inr (A ''2024-01-15 15:00:00'')"
    by code_simp
  moreover have "convert_utc_to_msk_pytz_try env (A ''2024-01-15T12:00:00+03:00'') =
      Inr (A ''2024-01-15 12:00:00'')"
    by code_simp
  moreover have "convert_utc_to_msk_pytz_try env (A ''2024-01-15T12:00:00-05:00'') =
      Inl NotNaive"
    by code_simp
  ultimately show ?thesis
    by (simp add: convert_utc_to_msk_pytz_def logger_error_def str_exn_def)
qed

text \<open>
  C6. When anything raises inside \<open>convert_utc_to_msk_pytz\<close>, it returns its argument
  unchanged after logging one ERROR line; it never raises, for any string; and
  \<open>get_weather_data\<close> goes on to build its record, with the unconverted string in the
  field \<open>time_msk\<close>.
\<close>

theorem conversion_failure_returns_input:
  assumes "convert_utc_to_msk_pytz_try env s = Inl e"
  shows "convert_utc_to_msk_pytz env s lg =
           (Inr s, lg @ [(ERROR, msg_convert_error @ str_exn env e)])
       \<and> (\<forall>s' lg'. \<exists>r. fst (convert_utc_to_msk_pytz env s' lg') = Inr r)
       \<and> (\<forall>client lat lon days resp rest cur ts n el c lg0.
            client url (make_params lat lon days) = Inr (resp # rest)
            \<and> read_response resp = Inr (cur, s)
            \<and> get_current_msk_time env 0 = Inr ts \<and> now env 1 UTC = Inr n
            \<and> Elevation resp = Inr el \<and> make_current cur s s = Inr c
            \<longrightarrow> fst (get_weather_data env client lat lon days lg0) =
                  Inr (Some \<lparr>timestamp = ts, timestamp_utc = isoformat n,
                     coordinates = \<lparr>latitude = lat, longitude = lon, elevation = el\<rparr>,
                     current = c, forecast_days = days,
                     units = \<lparr>unit_temperature = degrees_C, unit_precipitation = A ''mm'',
                              unit_pressure = A ''hPa'', unit_wind_speed = A ''km/h''\<rparr>\<rparr>))"
proof -
  have conv: "convert_utc_to_msk_pytz env s l =
      (Inr s, l @ [(ERROR, msg_convert_error @ str_exn env e)])" for l
    using assms by (simp add: convert_utc_to_msk_pytz_def logger_error_def)
  have total: "\<forall>s' lg'. \<exists>r. fst (convert_utc_to_msk_pytz env s' lg') = Inr r"
    using convert_returns by blast
  have built: "fst (get_weather_data env client lat lon days lg0) =
                  Inr (Some \<lparr>timestamp = ts, timestamp_utc = isoformat n,
                     coordinates = \<lparr>latitude = lat, longitude = lon, elevation = el\<rparr>,
                     current = c, forecast_days = days,
                     units = \<lparr>unit_temperature = degrees_C, unit_precipitation = A ''mm'',
                              unit_pressure = A ''hPa'', unit_wind_speed = A ''km/h''\<rparr>\<rparr>)"
    if "client url (make_params lat lon days) = Inr (resp # rest)"
      and "read_response resp = Inr (cur, s)"
      and "get_current_msk_time env 0 = Inr ts" and "now env 1 UTC = Inr n"
      and "Elevation resp = Inr el" and "make_current cur s s = Inr c"
    for client lat lon days resp rest cur ts n el c lg0
    using get_weather_data_success_eq[where client = client, OF that(1,2) conv that(3,4,5,6)]
    by simp
  from conv total built show ?thesis by blast
qed

theorem conversion_failure_returns_input_witness:
  "convert_utc_to_msk_pytz_try sample_env (A ''9999-12-31T23:59:59+00:00'') = Inl DateOutOfRange
   \<and> convert_utc_to_msk_pytz sample_env (A ''9999-12-31T23:59:59+00:00'') [] =
       (Inr (A ''9999-12-31T23:59:59+00:00''), [(ERROR, msg_convert_error @ A ''<error>'')])
   \<and> fst (get_weather_data sample_env (client_of [late_response]) lat0 lon0 3 []) =
       Inr (Some late_record)
   \<and> time_msk (current late_record) = A ''9999-12-31T23:59:59+00:00''"
proof -
  have f: "convert_utc_to_msk_pytz_try sample_env (A ''9999-12-31T23:59:59+00:00'') =
      Inl DateOutOfRange"
    by code_simp
  have t: "str_exn sample_env DateOutOfRange = A ''<error>''"
    by (simp add: str_exn_def sample_env_def)
  have m: "time_msk (current late_record) = A ''9999-12-31T23:59:59+00:00''"
    by (simp add: late_record_def)
  from conversion_failure_returns_input[OF f, of "[]"]
  have "convert_utc_to_msk_pytz sample_env (A ''9999-12-31T23:59:59+00:00'') [] =
       (Inr (A ''9999-12-31T23:59:59+00:00''), [(ERROR, msg_convert_error @ A ''<error>'')])"
    unfolding t by simp
  with f m show ?thesis by (simp add: run_late)
qed

text \<open>
  C7. For every number of forecast days from 1 to 16 the request is built without
  raising: its list of current variables has 14 names, the hourly list 6 and the daily
  list 8, the timezone is \<open>auto\<close> and \<open>past_days\<close> is 0, whatever the coordinates; and
  \<open>get_weather_data\<close> returns.
\<close>

theorem request_lists_fixed:
  assumes "1 \<le> days" and "days \<le> 16"
  shows "length (param_current (make_params lat lon days)) = 14
       \<and> length (param_hourly (make_params lat lon days)) = 6
       \<and> length (param_daily (make_params lat lon days)) = 8
       \<and> param_timezone (make_params lat lon days) = A ''auto''
       \<and> param_past_days (make_params lat lon days) = 0
       \<and> param_forecast_days (make_params lat lon days) = days
       \<and> param_latitude (make_params lat lon days) = lat
       \<and> param_longitude (make_params lat lon days) = lon
       \<and> (\<exists>r. fst (get_weather_data env client lat lon days lg) = Inr r)"
  using get_weather_data_returns[of env client lat lon days lg]
  by (simp add: make_params_def)

theorem request_lists_fixed_witness:
  "(1::int) \<le> 3 \<and> (3::int) \<le> 16
   \<and> length (param_current (make_params lat0 lon0 3)) = 14
   \<and> length (param_hourly (make_params lat0 lon0 3)) = 6
   \<and> length (param_daily (make_params lat0 lon0 3)) = 8
   \<and> param_timezone (make_params lat0 lon0 3) = A ''auto''
   \<and> param_past_days (make_params lat0 lon0 3) = 0
   \<and> param_forecast_days (make_params lat0 lon0 3) = 3"
proof -
  have a: "(1::int) \<le> 3" and b: "(3::int) \<le> 16" by simp_all
  from request_lists_fixed[OF a b, of lat0 lon0 sample_env "client_of []" "[]"] a b
  show ?thesis by simp
qed

text \<open>
  C8, as the code has it. The table \<open>weather_codes\<close> has 28 integer keys, not 27: 0, 1, 2,
  3, 45, 48, 51, 53, 55, 56, 57, 61, 63, 65, 66, 67, 71, 73, 75, 77, 80, 81, 82, 85, 86,
  95, 96, 99, each once. The description of a key is its entry; the description of any
  other integer is the fallback text followed by the integer in decimal. Code 61 is
  described as light rain (the emoji of a rain cloud and \<open>Dozhd' slabyj\<close>), and code 12345
  by the fallback text followed by \<open>12345\<close>.
\<close>

theorem weather_description_exact_lookup:
  "map fst weather_codes =
     [0, 1, 2, 3, 45, 48, 51, 53, 55, 56, 57, 61, 63, 65, 66, 67, 71, 73, 75, 77, 80, 81, 82,
      85, 86, 95, 96, 99]
   \<and> length weather_codes = 28
   \<and> distinct (map fst weather_codes)
   \<and> (\<forall>code d. (code, d) \<in> set weather_codes \<longrightarrow> weather_description code = d)
   \<and> (\<forall>code. code \<notin> set (map fst weather_codes) \<longrightarrow>
         weather_description code = msg_code @ str_int code)
   \<and> weather_description 61 =
       [0x1F327, 0xFE0F, 0x20] @ [0x414, 0x43E, 0x436, 0x434, 0x44C]
         @ [0x20, 0x441, 0x43B, 0x430, 0x431, 0x44B, 0x439]
   \<and> weather_description 12345 = msg_code @ A ''12345''"
proof -
  have keys: "map fst weather_codes =
     [0, 1, 2, 3, 45, 48, 51, 53, 55, 56, 57, 61, 63, 65, 66, 67, 71, 73, 75, 77, 80, 81, 82,
      85, 86, 95, 96, 99]"
    by (simp add: weather_codes_def)
  have len: "length weather_codes = 28"
    by (simp add: weather_codes_def)
  have dist: "distinct (map fst weather_codes)"
    unfolding keys by simp
  have known: "\<forall>code d. (code, d) \<in> set weather_codes \<longrightarrow> weather_description code = d"
    using map_of_is_SomeI[OF dist] by (simp add: weather_description_def)
  have unknown: "\<forall>code. code \<notin> set (map fst weather_codes) \<longrightarrow>
         weather_description code = msg_code @ str_int code"
    by (simp add: weather_description_def map_of_eq_None_iff [THEN iffD2])
  have "(61, [0x1F327, 0xFE0F, 0x20, 0x414, 0x43E, 0x436, 0x434, 0x44C, 0x20, 0x441, 0x43B,
              0x430, 0x431, 0x44B, 0x439]) \<in> set weather_codes"
    by (simp add: weather_codes_def)
  with known have rain: "weather_description 61 =
       [0x1F327, 0xFE0F, 0x20] @ [0x414, 0x43E, 0x436, 0x434, 0x44C]
         @ [0x20, 0x441, 0x43B, 0x430, 0x431, 0x44B, 0x439]"
    by simp
  have s: "str_int 12345 = A ''12345''"
    by code_simp
  have "(12345::int) \<notin> set (map fst weather_codes)"
    unfolding keys by simp
  with unknown s have other: "weather_description 12345 = msg_code @ A ''12345''"
    by simp
  from keys len dist known unknown rain other show ?thesis by blast
qed

text \<open>The claim as stated fails on the count: the keys are distinct and there are 28.\<close>

theorem weather_codes_count:
  "distinct (map fst weather_codes) \<and> length weather_codes = 28 \<and> length weather_codes \<noteq> 27"
proof -
  have "map fst weather_codes =
     [0, 1, 2, 3, 45, 48, 51, 53, 55, 56, 57, 61, 63, 65, 66, 67, 71, 73, 75, 77, 80, 81, 82,
      85, 86, 95, 96, 99]"
    by (simp add: weather_codes_def)
  then have "distinct (map fst weather_codes)" by simp
  moreover have "length weather_codes = 28" by (simp add: weather_codes_def)
  ultimately show ?thesis by simp
qed

theorem weather_description_exact_lookup_witness:
  "(12::int) \<notin> set (map fst weather_codes)
   \<and> weather_description 12 = msg_code @ A ''12''
   \<and> (95, [0x26C8, 0xFE0F, 0x20, 0x413, 0x440, 0x43E, 0x437, 0x430]) \<in> set weather_codes
   \<and> weather_description 95 = [0x26C8, 0xFE0F, 0x20, 0x413, 0x440, 0x43E, 0x437, 0x430]"
proof -
  note T = weather_description_exact_lookup
  from T have keys: "map fst weather_codes =
     [0, 1, 2, 3, 45, 48, 51, 53, 55, 56, 57, 61, 63, 65, 66, 67, 71, 73, 75, 77, 80, 81, 82,
      85, 86, 95, 96, 99]"
    by blast
  have a: "(12::int) \<notin> set (map fst weather_codes)"
    unfolding keys by simp
  have s: "str_int 12 = A ''12''"
    by code_simp
  have b: "(95, [0x26C8, 0xFE0F, 0x20, 0x413, 0x440, 0x43E, 0x437, 0x430]) \<in> set weather_codes"
    by (simp add: weather_codes_def)
  from T a have "weather_description 12 = msg_code @ str_int 12" by blast
  moreover from T b
  have "weather_description 95 = [0x26C8, 0xFE0F, 0x20, 0x413, 0x440, 0x43E, 0x437, 0x430]"
    by blast
  ultimately show ?thesis using a b s by simp
qed

text \<open>
  C9. \<open>log_weather_summary\<close> is a function of the record alone: it appends to the log,
  whatever the log holds, the same nine INFO lines in the same order (the header, the
  observation time, the request time, the temperature with the apparent temperature,
  the humidity, the weather description, the wind speed with the gusts, the surface
  pressure, the precipitation), and nothing for a missing record. Two renderings of one
  record give the same lines.
\<close>

theorem summary_lines_deterministic:
  "log_weather_summary env (Some wd) lg =
     (Inr (),
      lg @ [(INFO, label_header),
            (INFO, label_observed @ time_msk (current wd)),
            (INFO, label_requested @ timestamp wd),
            (INFO, label_temperature @ repr_float env (temperature (current wd))
                     @ label_feels_like @ repr_float env (apparent_temperature (current wd))
                     @ label_feels_like_end),
            (INFO, label_humidity @ str_int (humidity (current wd)) @ A ''%''),
            (INFO, label_weather @ weather_description (weather_code (current wd))),
            (INFO, label_wind @ repr_float env (wind_speed (current wd)) @ label_gusts
                     @ repr_float env (wind_gusts (current wd)) @ label_kmh),
            (INFO, label_pressure @ str_int (surface_pressure (current wd)) @ A '' hPa''),
            (INFO, label_precipitation @ repr_float env (precipitation (current wd))
                     @ label_mmh)])
   \<and> log_weather_summary env None lg = (Inr (), lg)
   \<and> drop (length lg) (snd (log_weather_summary env w lg)) =
       drop (length lg') (snd (log_weather_summary env w lg'))"
proof -
  have some: "log_weather_summary env (Some wd) l =
     (Inr (),
      l @ [(INFO, label_header),
            (INFO, label_observed @ time_msk (current wd)),
            (INFO, label_requested @ timestamp wd),
            (INFO, label_temperature @ repr_float env (temperature (current wd))
                     @ label_feels_like @ repr_float env (apparent_temperature (current wd))
                     @ label_feels_like_end),
            (INFO, label_humidity @ str_int (humidity (current wd)) @ A ''%''),
            (INFO, label_weather @ weather_description (weather_code (current wd))),
            (INFO, label_wind @ repr_float env (wind_speed (current wd)) @ label_gusts
                     @ repr_float env (wind_gusts (current wd)) @ label_kmh),
            (INFO, label_pressure @ str_int (surface_pressure (current wd)) @ A '' hPa''),
            (INFO, label_precipitation @ repr_float env (precipitation (current wd))
                     @ label_mmh)])" for l wd
    by (simp add: log_weather_summary_def Let_def logger_info_def)
  have none: "log_weather_summary env None l = (Inr (), l)" for l
    by (simp add: log_weather_summary_def)
  have "drop (length lg) (snd (log_weather_summary env w lg)) =
       drop (length lg') (snd (log_weather_summary env w lg'))"
    by (cases w) (simp_all add: some none)
  with some none show ?thesis by blast
qed

theorem summary_lines_deterministic_witness:
  "length (snd (log_weather_summary sample_env (Some sample_record) [])) = 9
   \<and> drop 2 (snd (log_weather_summary sample_env (Some sample_record)
                    [(ERROR, msg_empty), (INFO, msg_success)])) =
       snd (log_weather_summary sample_env (Some sample_record) [])
   \<and> snd (log_weather_summary sample_env (Some sample_record) []) ! 1 =
       (INFO, label_observed @ A ''2024-01-15 15:00:00'')
   \<and> snd (log_weather_summary sample_env (Some sample_record) []) ! 4 =
       (INFO, label_humidity @ A ''63%'')
   \<and> snd (log_weather_summary sample_env (Some sample_record) []) ! 7 =
       (INFO, label_pressure @ A ''996 hPa'')"
proof -
  note a = summary_lines_deterministic[of sample_env sample_record "[]" None "[]",
      THEN conjunct1]
  note b = summary_lines_deterministic[of sample_env sample_record
      "[(ERROR, msg_empty), (INFO, msg_success)]" None "[]", THEN conjunct1]
  have h: "str_int 63 @ A ''%'' = A ''63%''" "str_int 996 @ A '' hPa'' = A ''996 hPa''"
    by code_simp+
  have f: "humidity (current sample_record) = 63" "surface_pressure (current sample_record) = 996"
    "time_msk (current sample_record) = A ''2024-01-15 15:00:00''"
    by (simp_all add: sample_record_def)
  show ?thesis unfolding a b by (simp add: f h)
qed

text \<open>
  C10. The integer fields (humidity, cloud cover, the two pressures, the wind
  direction) are rounded half to even: a slot exactly halfway between two integers
  gives the even one of the two, so 62.5 becomes 62 and 63.5 becomes 64.
\<close>

theorem integer_fields_round_half_even:
  assumes "client url (make_params lat lon days) = Inr (resp # rest)"
      and "Current resp = Inr cur"
      and "\<forall>i<14. Variables_Value cur i = Inr (Finite (v i))"
      and "fst (get_weather_data env client lat lon days lg) = Inr (Some wd)"
  shows "(v 1 = of_int n + 1 / 2 \<longrightarrow> humidity (current wd) = (if even n then n else n + 1))
       \<and> (v 8 = of_int n + 1 / 2 \<longrightarrow> cloud_cover (current wd) = (if even n then n else n + 1))
       \<and> (v 9 = of_int n + 1 / 2 \<longrightarrow> pressure_msl (current wd) = (if even n then n else n + 1))
       \<and> (v 10 = of_int n + 1 / 2 \<longrightarrow> surface_pressure (current wd) = (if even n then n else n + 1))
       \<and> (v 12 = of_int n + 1 / 2 \<longrightarrow> wind_direction (current wd) = (if even n then n else n + 1))
       \<and> float_round (125 / 2) = 62 \<and> float_round (127 / 2) = 64"
proof -
  from get_weather_data_SomeD[where client = client, OF assms(1,2,4)]
  obtain a b where "make_current cur a b = Inr (current wd)" by blast
  then have "current wd = \<lparr>time_utc = a, time_msk = b,
          temperature = Finite (round_1 (v 0)),
          humidity = float_round (v 1),
          apparent_temperature = Finite (round_1 (v 2)),
          precipitation = Finite (round_1 (v 3)),
          rain = Finite (round_1 (v 4)),
          showers = Finite (round_1 (v 5)),
          snowfall = Finite (round_1 (v 6)),
          weather_code = float_trunc (v 7),
          cloud_cover = float_round (v 8),
          pressure_msl = float_round (v 9),
          surface_pressure = float_round (v 10),
          wind_speed = Finite (round_1 (v 11)),
          wind_direction = float_round (v 12),
          wind_gusts = Finite (round_1 (v 13))\<rparr>"
    by (simp add: make_current_finite[OF assms(3)])
  then have f: "humidity (current wd) = float_round (v 1)"
    "cloud_cover (current wd) = float_round (v 8)"
    "pressure_msl (current wd) = float_round (v 9)"
    "surface_pressure (current wd) = float_round (v 10)"
    "wind_direction (current wd) = float_round (v 12)"
    by simp_all
  have ex: "float_round (125 / 2) = 62" "float_round (127 / 2) = 64"
    by code_simp+
  show ?thesis unfolding f using ex by (simp add: float_round_half)
qed

theorem integer_fields_round_half_even_witness:
  "fst (get_weather_data sample_env (client_of [halfway_response]) lat0 lon0 3 []) =
     Inr (Some halfway_record)
   \<and> halfway_slots ! 1 = 125 / 2 \<and> humidity (current halfway_record) = 62
   \<and> halfway_slots ! 8 = 127 / 2 \<and> cloud_cover (current halfway_record) = 64
   \<and> halfway_slots ! 9 = 2025 / 2 \<and> pressure_msl (current halfway_record) = 1012
   \<and> halfway_slots ! 10 = 1991 / 2 \<and> surface_pressure (current halfway_record) = 996
   \<and> halfway_slots ! 12 = 451 / 2 \<and> wind_direction (current halfway_record) = 226"
proof -
  have call: "client_of [halfway_response] url (make_params lat0 lon0 3) = Inr (halfway_response # [])"
    by (simp add: client_of_def)
  have cur: "Current halfway_response = Inr (current_of 1705320000 (map Finite halfway_slots))"
    by (simp add: halfway_response_def response_of_def)
  have slots: "halfway_slots ! 1 = of_int 62 + 1 / 2" "halfway_slots ! 8 = of_int 63 + 1 / 2"
    "halfway_slots ! 9 = of_int 1012 + 1 / 2" "halfway_slots ! 10 = of_int 995 + 1 / 2"
    "halfway_slots ! 12 = of_int 225 + 1 / 2"
    by (simp_all add: halfway_slots_def)
  note T = integer_fields_round_half_even[where v = "\<lambda>i. halfway_slots ! i"
      and client = "client_of [halfway_response]", OF call cur halfway_slots_finite run_halfway]
  from T[where n = 62] slots(1) have "humidity (current halfway_record) = 62" by simp
  moreover from T[where n = 63] slots(2) have "cloud_cover (current halfway_record) = 64" by simp
  moreover from T[where n = 1012] slots(3) have "pressure_msl (current halfway_record) = 1012" by simp
  moreover from T[where n = 995] slots(4) have "surface_pressure (current halfway_record) = 996" by simp
  moreover from T[where n = 225] slots(5) have "wind_direction (current halfway_record) = 226" by simp
  ultimately show ?thesis using run_halfway by (simp add: halfway_slots_def)
qed

end
